theory Spec2Isabelle
  imports Main
begin

section \<open>Values exchanged with the collaborators\<close>

text \<open>
  The program (\<^verbatim>\<open>src/src/index.js\<close>, the variant with the remote-management
  menu) talks to two collaborators: the version-control binding \<^verbatim>\<open>git\<close> and the
  prompting library \<^verbatim>\<open>inquirer\<close>. Both are asynchronous calls that either
  resolve with a value or reject with an error object; the program awaits each call
  before the next one, so the model is sequential.
\<close>

text \<open>An error object: the three properties the program reads.\<close>

record js_error =
  message :: string
  stderr :: "string option"
  isTtyError :: bool

text \<open>One entry of \<^verbatim>\<open>git.getRemotes(true)\<close>: \<^verbatim>\<open>name\<close> and \<^verbatim>\<open>refs.fetch\<close>.\<close>

record remote =
  name :: string
  refs_fetch :: string

text \<open>The result of \<^verbatim>\<open>git.branch()\<close> and \<^verbatim>\<open>git.branchLocal()\<close>.\<close>

record branch_summary =
  current :: string
  all_names :: "string list"

text \<open>The result of \<^verbatim>\<open>git.status()\<close>; its \<^verbatim>\<open>current\<close> is \<open>status_current\<close> here.\<close>

record status_result =
  status_current :: string
  tracking :: "string option"
  ahead :: nat
  behind :: nat
  modified :: "string list"
  not_added :: "string list"
  staged :: "string list"

text \<open>The \<^verbatim>\<open>summary\<close> of the result of \<^verbatim>\<open>git.pull()\<close>.\<close>

record pull_summary =
  changes :: nat
  insertions :: nat
  deletions :: nat

text \<open>The constants \<^verbatim>\<open>ACTIONS\<close> and \<^verbatim>\<open>REMOTE_ACTIONS\<close>, one constructor per label.\<close>

datatype action =
  STATUS | COMMIT_PUSH | PULL | PUSH | BRANCH_MANAGE | MERGE | REMOTE_MANAGE | EXIT

datatype remote_action = ADD | UPDATE | DELETE | BACK

section \<open>Observable events\<close>

text \<open>The second argument of \<^verbatim>\<open>handleError\<close>: the name of the failed operation.\<close>

datatype operation =
    OpShowStatus | OpCommitCode | OpPull | OpPush | OpSwitchBranch | OpMergeBranch
  | OpAddRemote | OpUpdateRemote | OpDeleteRemote | OpExecute

text \<open>The lines the program prints, one constructor per \<^verbatim>\<open>console.log\<close> of the source.\<close>

datatype line =
    ErrorLine operation string
  | DetailLine string
  | NotARepoLine
  | StatusBranchLine string
  | StatusTrackingLine "string option"
  | StatusAheadBehindLine nat nat
  | StatusModifiedLine "string list"
  | StatusUntrackedLine "string list"
  | StatusStagedLine "string list"
  | StatusCleanLine
  | NoChangesLine
  | AddingLine
  | CommittingLine
  | CommitOkLine
  | SyncPullingLine
  | SyncPulledLine
  | SyncMergedLine pull_summary
  | PullFailedSkipPushLine
  | PushingLine string string
  | PushedLine string string
  | PullingLine
  | PullDoneLine
  | PullUpdatesLine pull_summary
  | UpToDateLine
  | NoRemotesLine
  | PushDoneLine
  | CurrentBranchLine string
  | AllBranchesLine
  | BranchEntryLine bool string
  | AlreadyCurrentLine
  | SwitchingLine string
  | SwitchedLine string
  | NoOtherBranchLine
  | MergeCancelledLine
  | MergingLine string
  | MergedLine string string
  | RemoteAddedLine string string
  | NoRemoteToUpdateLine
  | RemoteUpdatedLine string string
  | NoRemoteToDeleteLine
  | DeleteCancelledLine
  | RemoteDeletedLine string
  | NoRemotesYetLine
  | RemotesHeaderLine
  | RemoteEntryLine string string
  | MenuBranchLine string
  | FarewellLine
  | BlankLine
  | NonInteractiveLine
  | UnexpectedLine js_error

text \<open>The calls on the version-control binding, with their arguments.\<close>

datatype git_call =
    CheckIsRepo
  | Branch
  | Status
  | Add string
  | Commit string
  | Pull
  | Push string string
  | BranchLocal
  | Checkout string
  | Merge "string list"
  | GetRemotes
  | AddRemote string string
  | Remote "string list"
  | RemoveRemote string

text \<open>
  The questions put to the prompting library. An input question has a message, an
  optional default and possibly a \<^verbatim>\<open>validate\<close> function; a list question has a message,
  the choices and an optional default; a confirmation has a message and a default.
\<close>

datatype prompt_message =
    CommitMessageMsg
  | PushRemoteMsg
  | PushBranchMsg
  | SwitchBranchMsg
  | MergeSourceMsg string
  | MergeConfirmMsg string string
  | RemoteNameMsg
  | RemoteUrlMsg
  | UpdateRemoteMsg
  | NewUrlMsg
  | DeleteRemoteMsg
  | DeleteConfirmMsg string
  | ContinueMsg

datatype question =
    InputQ prompt_message "string option" bool
  | ListQ prompt_message "string list" "string option"
  | ConfirmQ prompt_message bool
  | MainMenuQ "action list"
  | RemoteMenuQ "remote_action list"

datatype result = Ok | Failed js_error

datatype event =
    Call git_call result
  | Ask question result
  | Log line

section \<open>The collaborators\<close>

text \<open>
  The collaborators are parameters of the model: each call takes the state of the
  outside world and gives a value or an error, and the next state of the world.
  A prompt with several questions is asked one question after the other, as the
  prompting library does, and rejects as soon as one question rejects.
\<close>

record 'w env =
  git_checkIsRepo :: "'w \<Rightarrow> (js_error + bool) \<times> 'w"
  git_branch :: "'w \<Rightarrow> (js_error + branch_summary) \<times> 'w"
  git_status :: "'w \<Rightarrow> (js_error + status_result) \<times> 'w"
  git_add :: "string \<Rightarrow> 'w \<Rightarrow> (js_error + unit) \<times> 'w"
  git_commit :: "string \<Rightarrow> 'w \<Rightarrow> (js_error + unit) \<times> 'w"
  git_pull :: "'w \<Rightarrow> (js_error + pull_summary) \<times> 'w"
  git_push :: "string \<Rightarrow> string \<Rightarrow> 'w \<Rightarrow> (js_error + unit) \<times> 'w"
  git_branchLocal :: "'w \<Rightarrow> (js_error + branch_summary) \<times> 'w"
  git_checkout :: "string \<Rightarrow> 'w \<Rightarrow> (js_error + unit) \<times> 'w"
  git_merge :: "string list \<Rightarrow> 'w \<Rightarrow> (js_error + unit) \<times> 'w"
  git_getRemotes :: "'w \<Rightarrow> (js_error + remote list) \<times> 'w"
  git_addRemote :: "string \<Rightarrow> string \<Rightarrow> 'w \<Rightarrow> (js_error + unit) \<times> 'w"
  git_remote :: "string list \<Rightarrow> 'w \<Rightarrow> (js_error + unit) \<times> 'w"
  git_removeRemote :: "string \<Rightarrow> 'w \<Rightarrow> (js_error + unit) \<times> 'w"
  prompt_input :: "question \<Rightarrow> 'w \<Rightarrow> (js_error + string) \<times> 'w"
  prompt_list :: "question \<Rightarrow> 'w \<Rightarrow> (js_error + string) \<times> 'w"
  prompt_confirm :: "question \<Rightarrow> 'w \<Rightarrow> (js_error + bool) \<times> 'w"
  prompt_action :: "question \<Rightarrow> 'w \<Rightarrow> (js_error + action) \<times> 'w"
  prompt_remote_action :: "question \<Rightarrow> 'w \<Rightarrow> (js_error + remote_action) \<times> 'w"

section \<open>Asynchronous functions as state transformers\<close>

text \<open>
  An \<^verbatim>\<open>async\<close> function ends in one of three ways: it returns a value, it throws
  (its promise rejects), or it ends the process with \<^verbatim>\<open>process.exit\<close>. It also
  changes the world and leaves a trace of events.
\<close>

datatype 'a outcome = Returned 'a | Threw js_error | Exited nat

type_synonym ('w, 'a) io = "'w \<Rightarrow> 'a outcome \<times> 'w \<times> event list"

definition io_return :: "'a \<Rightarrow> ('w, 'a) io" where
  "io_return x w = (Returned x, w, [])"

definition io_throw :: "js_error \<Rightarrow> ('w, 'a) io" where
  "io_throw e w = (Threw e, w, [])"

definition process_exit :: "nat \<Rightarrow> ('w, 'a) io" where
  "process_exit c w = (Exited c, w, [])"

definition console_log :: "line \<Rightarrow> ('w, unit) io" where
  "console_log l w = (Returned (), w, [Log l])"

text \<open>\<^verbatim>\<open>const x = await m; f(x)\<close>: a throw or an exit of \<open>m\<close> skips \<open>f\<close>.\<close>

definition io_bind :: "('w, 'a) io \<Rightarrow> ('a \<Rightarrow> ('w, 'b) io) \<Rightarrow> ('w, 'b) io" where
  "io_bind m f w =
     (case m w of
        (Returned x, w1, t1) \<Rightarrow> (case f x w1 of (r, w2, t2) \<Rightarrow> (r, w2, t1 @ t2))
      | (Threw e, w1, t1) \<Rightarrow> (Threw e, w1, t1)
      | (Exited c, w1, t1) \<Rightarrow> (Exited c, w1, t1))"

definition io_then :: "('w, 'a) io \<Rightarrow> ('w, 'b) io \<Rightarrow> ('w, 'b) io" where
  "io_then m k = io_bind m (\<lambda>_. k)"

text \<open>\<^verbatim>\<open>try { m } catch (err) { h(err) }\<close>: only a throw reaches the handler.\<close>

definition io_catch :: "('w, 'a) io \<Rightarrow> (js_error \<Rightarrow> ('w, 'a) io) \<Rightarrow> ('w, 'a) io" where
  "io_catch m h w =
     (case m w of
        (Threw e, w1, t1) \<Rightarrow> (case h e w1 of (r, w2, t2) \<Rightarrow> (r, w2, t1 @ t2))
      | (Returned x, w1, t1) \<Rightarrow> (Returned x, w1, t1)
      | (Exited c, w1, t1) \<Rightarrow> (Exited c, w1, t1))"

text \<open>An awaited call on the version-control binding, and an awaited prompt.\<close>

definition git :: "git_call \<Rightarrow> ('w \<Rightarrow> (js_error + 'a) \<times> 'w) \<Rightarrow> ('w, 'a) io" where
  "git c f w =
     (case f w of
        (Inl e, w1) \<Rightarrow> (Threw e, w1, [Call c (Failed e)])
      | (Inr v, w1) \<Rightarrow> (Returned v, w1, [Call c Ok]))"

definition inquirer_prompt :: "question \<Rightarrow> (question \<Rightarrow> 'w \<Rightarrow> (js_error + 'a) \<times> 'w) \<Rightarrow> ('w, 'a) io" where
  "inquirer_prompt q f w =
     (case f q w of
        (Inl e, w1) \<Rightarrow> (Threw e, w1, [Ask q (Failed e)])
      | (Inr v, w1) \<Rightarrow> (Returned v, w1, [Ask q Ok]))"

section \<open>Helpers of the program\<close>

text \<open>
  \<^verbatim>\<open>handleError(err, operation)\<close>: the message, then the detail text when
  \<^verbatim>\<open>err.stderr\<close> is truthy (defined and not the empty string).
\<close>

definition handleError :: "js_error \<Rightarrow> operation \<Rightarrow> ('w, unit) io" where
  "handleError err operation =
     io_then (console_log (ErrorLine operation (message err)))
       (case stderr err of
          None \<Rightarrow> io_return ()
        | Some s \<Rightarrow> if s \<noteq> [] then console_log (DetailLine s) else io_return ())"

definition getCurrentBranch :: "'w env \<Rightarrow> ('w, string) io" where
  "getCurrentBranch env =
     io_bind (git Branch (git_branch env)) (\<lambda>branchSummary. io_return (current branchSummary))"

definition getRemotes :: "'w env \<Rightarrow> ('w, remote list) io" where
  "getRemotes env = git GetRemotes (git_getRemotes env)"

text \<open>The message of the error that \<^verbatim>\<open>getDefaultRemote\<close> creates (in English here).\<close>

definition no_remote_error :: js_error where
  "no_remote_error = \<lparr>message = ''no remote configured'', stderr = None, isTtyError = False\<rparr>"

text \<open>
  \<^verbatim>\<open>remotes.find(r => r.name === "origin")?.name || remotes[0]?.name\<close> on a list
  that has passed the test \<^verbatim>\<open>remotes.length === 0\<close>: the left operand is undefined
  when no remote is found, and \<^verbatim>\<open>||\<close> also takes the right operand when the left
  one is the empty string.
\<close>

fun defaultRemoteName :: "remote list \<Rightarrow> string option" where
  "defaultRemoteName [] = None"
| "defaultRemoteName (r0 # rs) =
     (case find (\<lambda>r. name r = ''origin'') (r0 # rs) of
        None \<Rightarrow> Some (name r0)
      | Some r \<Rightarrow> if name r \<noteq> [] then Some (name r) else Some (name r0))"

definition getDefaultRemote :: "'w env \<Rightarrow> ('w, string) io" where
  "getDefaultRemote env =
     io_bind (getRemotes env) (\<lambda>remotes.
       if length remotes = 0 then io_throw no_remote_error
       else (case defaultRemoteName remotes of
               None \<Rightarrow> io_throw no_remote_error
             | Some n \<Rightarrow> io_return n))"

text \<open>\<^verbatim>\<open>checkIsRepo\<close>: ends the process with code 1 outside a repository.\<close>

definition checkIsRepo :: "'w env \<Rightarrow> ('w, unit) io" where
  "checkIsRepo env =
     io_bind (git CheckIsRepo (git_checkIsRepo env)) (\<lambda>isRepo.
       if \<not> isRepo then io_then (console_log NotARepoLine) (process_exit 1)
       else io_return ())"

text \<open>
  \<^verbatim>\<open>String.prototype.trim\<close>. A string is the list of the bytes of its UTF-8 encoding.
  The method removes from both ends the white space and the line terminators of the
  language: the code points U+0009 to U+000D, U+0020, U+00A0, U+1680, U+2000 to U+200A,
  U+2028, U+2029, U+202F, U+205F, U+3000 and U+FEFF, each given here by its encoding.
\<close>

definition white_space :: "string list" where
  "white_space =
     [[CHR 0x09], [CHR 0x0A], [CHR 0x0B], [CHR 0x0C], [CHR 0x0D], [CHR 0x20],
      [CHR 0xC2, CHR 0xA0],
      [CHR 0xE1, CHR 0x9A, CHR 0x80],
      [CHR 0xE2, CHR 0x80, CHR 0x80], [CHR 0xE2, CHR 0x80, CHR 0x81],
      [CHR 0xE2, CHR 0x80, CHR 0x82], [CHR 0xE2, CHR 0x80, CHR 0x83],
      [CHR 0xE2, CHR 0x80, CHR 0x84], [CHR 0xE2, CHR 0x80, CHR 0x85],
      [CHR 0xE2, CHR 0x80, CHR 0x86], [CHR 0xE2, CHR 0x80, CHR 0x87],
      [CHR 0xE2, CHR 0x80, CHR 0x88], [CHR 0xE2, CHR 0x80, CHR 0x89],
      [CHR 0xE2, CHR 0x80, CHR 0x8A],
      [CHR 0xE2, CHR 0x80, CHR 0xA8], [CHR 0xE2, CHR 0x80, CHR 0xA9],
      [CHR 0xE2, CHR 0x80, CHR 0xAF],
      [CHR 0xE2, CHR 0x81, CHR 0x9F],
      [CHR 0xE3, CHR 0x80, CHR 0x80],
      [CHR 0xEF, CHR 0xBB, CHR 0xBF]]"

text \<open>
  The string without the encodings of \<open>ws\<close> at its start; an encoding has one, two or
  three bytes.
\<close>

fun strip :: "string list \<Rightarrow> string \<Rightarrow> string" where
  "strip ws [] = []"
| "strip ws (c # cs) =
     (if take 1 (c # cs) \<in> set ws then strip ws cs
      else if take 2 (c # cs) \<in> set ws then strip ws (drop 1 cs)
      else if take 3 (c # cs) \<in> set ws then strip ws (drop 2 cs)
      else c # cs)"

text \<open>At the end of the string the bytes of an encoding are met in reverse.\<close>

definition trim :: "string \<Rightarrow> string" where
  "trim s = rev (strip (map rev white_space) (rev (strip white_space s)))"

text \<open>\<^verbatim>\<open>xs.forEach(x => console.log(...))\<close>.\<close>

fun log_each :: "line list \<Rightarrow> ('w, unit) io" where
  "log_each [] = io_return ()"
| "log_each (l # ls) = io_then (console_log l) (log_each ls)"

section \<open>The action handlers\<close>

definition showStatus :: "'w env \<Rightarrow> ('w, unit) io" where
  "showStatus env =
     io_catch
       (io_bind (git Status (git_status env)) (\<lambda>status.
        io_then (console_log (StatusBranchLine (status_current status)))
       (io_then (console_log (StatusTrackingLine
                   (case tracking status of
                      None \<Rightarrow> None
                    | Some t \<Rightarrow> if t \<noteq> [] then Some t else None)))
       (io_then (console_log (StatusAheadBehindLine (ahead status) (behind status)))
       (io_then (if length (modified status) > 0
                 then console_log (StatusModifiedLine (modified status)) else io_return ())
       (io_then (if length (not_added status) > 0
                 then console_log (StatusUntrackedLine (not_added status)) else io_return ())
       (io_then (if length (staged status) > 0
                 then console_log (StatusStagedLine (staged status)) else io_return ())
                (if length (modified status) = 0 \<and> length (not_added status) = 0
                     \<and> length (staged status) = 0
                 then console_log StatusCleanLine else io_return ()))))))))
       (\<lambda>err. handleError err OpShowStatus)"

text \<open>
  \<^verbatim>\<open>commitAndPush\<close> has two inner \<^verbatim>\<open>try\<close> blocks. The first one, around the
  pull, ends the whole function in its \<^verbatim>\<open>catch\<close>: here it gives \<open>False\<close> there
  and \<open>True\<close> after a pull that went through, and the second block runs under that
  test. The second one is the push to the default remote.
\<close>

definition commitAndPush_pull :: "'w env \<Rightarrow> ('w, bool) io" where
  "commitAndPush_pull env =
     io_catch
       (io_then (console_log SyncPullingLine)
       (io_bind (git Pull (git_pull env)) (\<lambda>pullResult.
        io_then (console_log SyncPulledLine)
       (io_then (if changes pullResult \<noteq> 0 \<or> insertions pullResult \<noteq> 0
                    \<or> deletions pullResult \<noteq> 0
                 then console_log (SyncMergedLine pullResult) else io_return ())
                (io_return True)))))
       (\<lambda>err. io_then (handleError err OpPull)
              (io_then (console_log PullFailedSkipPushLine) (io_return False)))"

definition commitAndPush_push :: "'w env \<Rightarrow> string \<Rightarrow> ('w, unit) io" where
  "commitAndPush_push env currentBranch =
     io_catch
       (io_bind (getDefaultRemote env) (\<lambda>remote.
        io_then (console_log (PushingLine remote currentBranch))
       (io_then (git (Push remote currentBranch) (git_push env remote currentBranch))
                (console_log (PushedLine remote currentBranch)))))
       (\<lambda>err. handleError err OpPush)"

definition commitAndPush :: "'w env \<Rightarrow> ('w, unit) io" where
  "commitAndPush env =
     io_catch
       (io_bind (getCurrentBranch env) (\<lambda>currentBranch.
        io_bind (git Status (git_status env)) (\<lambda>status.
        if length (modified status) = 0 \<and> length (not_added status) = 0
        then console_log NoChangesLine
        else
          io_bind (inquirer_prompt (InputQ CommitMessageMsg None True) (prompt_input env)) (\<lambda>msg.
          io_then (console_log AddingLine)
         (io_then (git (Add ''.'') (git_add env ''.''))
         (io_then (console_log CommittingLine)
         (io_then (git (Commit (trim msg)) (git_commit env (trim msg)))
         (io_then (console_log CommitOkLine)
         (io_bind (commitAndPush_pull env) (\<lambda>pulled.
            if \<not> pulled then io_return ()
            else commitAndPush_push env currentBranch))))))))))
       (\<lambda>err. handleError err OpCommitCode)"

definition pullCode :: "'w env \<Rightarrow> ('w, unit) io" where
  "pullCode env =
     io_catch
       (io_then (console_log PullingLine)
       (io_bind (git Pull (git_pull env)) (\<lambda>result.
        io_then (console_log PullDoneLine)
                (if changes result \<noteq> 0 \<or> insertions result \<noteq> 0 \<or> deletions result \<noteq> 0
                 then console_log (PullUpdatesLine result)
                 else console_log UpToDateLine))))
       (\<lambda>err. handleError err OpPull)"

definition pushCode :: "'w env \<Rightarrow> ('w, unit) io" where
  "pushCode env =
     io_catch
       (io_bind (getRemotes env) (\<lambda>remotes.
        if length remotes = 0 then console_log NoRemotesLine
        else
          io_bind (getCurrentBranch env) (\<lambda>currentBranch.
          io_bind (inquirer_prompt (ListQ PushRemoteMsg (map name remotes) None)
                     (prompt_list env)) (\<lambda>remote.
          io_bind (inquirer_prompt (InputQ PushBranchMsg (Some currentBranch) False)
                     (prompt_input env)) (\<lambda>branch.
          io_then (console_log (PushingLine remote branch))
         (io_then (git (Push remote branch) (git_push env remote branch))
                  (console_log PushDoneLine)))))))
       (\<lambda>err. handleError err OpPush)"

definition manageBranches :: "'w env \<Rightarrow> ('w, unit) io" where
  "manageBranches env =
     io_catch
       (io_bind (git BranchLocal (git_branchLocal env)) (\<lambda>branches.
        let currentBranch = current branches in
        io_then (console_log (CurrentBranchLine currentBranch))
       (io_then (console_log AllBranchesLine)
       (io_then (log_each (map (\<lambda>branch. BranchEntryLine (branch = currentBranch) branch)
                            (all_names branches)))
       (io_bind (inquirer_prompt (ListQ SwitchBranchMsg (all_names branches) (Some currentBranch))
                   (prompt_list env)) (\<lambda>branch.
        if branch = currentBranch then console_log AlreadyCurrentLine
        else
          io_then (console_log (SwitchingLine branch))
         (io_then (git (Checkout branch) (git_checkout env branch))
                  (console_log (SwitchedLine branch)))))))))
       (\<lambda>err. handleError err OpSwitchBranch)"

definition mergeBranch :: "'w env \<Rightarrow> ('w, unit) io" where
  "mergeBranch env =
     io_catch
       (io_bind (getCurrentBranch env) (\<lambda>currentBranch.
        io_bind (git BranchLocal (git_branchLocal env)) (\<lambda>branches.
        let availableBranches = filter (\<lambda>b. b \<noteq> currentBranch) (all_names branches) in
        if length availableBranches = 0 then console_log NoOtherBranchLine
        else
          io_bind (inquirer_prompt (ListQ (MergeSourceMsg currentBranch) availableBranches None)
                     (prompt_list env)) (\<lambda>branch.
          io_bind (inquirer_prompt (ConfirmQ (MergeConfirmMsg branch currentBranch) False)
                     (prompt_confirm env)) (\<lambda>confirm.
          if \<not> confirm then console_log MergeCancelledLine
          else
            io_then (console_log (MergingLine branch))
           (io_then (git (Merge [branch]) (git_merge env [branch]))
                    (console_log (MergedLine branch currentBranch))))))))
       (\<lambda>err. handleError err OpMergeBranch)"

definition addRemote :: "'w env \<Rightarrow> ('w, unit) io" where
  "addRemote env =
     io_catch
       (io_bind (inquirer_prompt (InputQ RemoteNameMsg (Some ''origin'') True)
                   (prompt_input env)) (\<lambda>name.
        io_bind (inquirer_prompt (InputQ RemoteUrlMsg None True) (prompt_input env)) (\<lambda>url.
        io_then (git (AddRemote (trim name) (trim url)) (git_addRemote env (trim name) (trim url)))
                (console_log (RemoteAddedLine name url)))))
       (\<lambda>err. handleError err OpAddRemote)"

definition updateRemote :: "'w env \<Rightarrow> ('w, unit) io" where
  "updateRemote env =
     io_catch
       (io_bind (getRemotes env) (\<lambda>remotes.
        if length remotes = 0 then console_log NoRemoteToUpdateLine
        else
          io_bind (inquirer_prompt (ListQ UpdateRemoteMsg (map name remotes) None)
                     (prompt_list env)) (\<lambda>remoteName.
          io_bind (inquirer_prompt (InputQ NewUrlMsg None True) (prompt_input env)) (\<lambda>newUrl.
          io_then (git (Remote [''set-url'', remoteName, trim newUrl])
                     (git_remote env [''set-url'', remoteName, trim newUrl]))
                  (console_log (RemoteUpdatedLine remoteName newUrl))))))
       (\<lambda>err. handleError err OpUpdateRemote)"

definition deleteRemote :: "'w env \<Rightarrow> ('w, unit) io" where
  "deleteRemote env =
     io_catch
       (io_bind (getRemotes env) (\<lambda>remotes.
        if length remotes = 0 then console_log NoRemoteToDeleteLine
        else
          io_bind (inquirer_prompt (ListQ DeleteRemoteMsg (map name remotes) None)
                     (prompt_list env)) (\<lambda>remoteName.
          io_bind (inquirer_prompt (ConfirmQ (DeleteConfirmMsg remoteName) False)
                     (prompt_confirm env)) (\<lambda>confirm.
          if \<not> confirm then console_log DeleteCancelledLine
          else
            io_then (git (RemoveRemote remoteName) (git_removeRemote env remoteName))
                    (console_log (RemoteDeletedLine remoteName))))))
       (\<lambda>err. handleError err OpDeleteRemote)"

text \<open>\<^verbatim>\<open>manageRemotes\<close> has no \<^verbatim>\<open>try\<close> of its own.\<close>

definition manageRemotes :: "'w env \<Rightarrow> ('w, unit) io" where
  "manageRemotes env =
     io_bind (getRemotes env) (\<lambda>remotes.
     io_then (if length remotes = 0 then console_log NoRemotesYetLine
              else io_then (console_log RemotesHeaderLine)
                     (log_each (map (\<lambda>r. RemoteEntryLine (name r) (refs_fetch r)) remotes)))
    (io_bind (inquirer_prompt (RemoteMenuQ [ADD, UPDATE, DELETE, BACK])
                (prompt_remote_action env)) (\<lambda>remoteAction.
     case remoteAction of
       ADD \<Rightarrow> addRemote env
     | UPDATE \<Rightarrow> updateRemote env
     | DELETE \<Rightarrow> deleteRemote env
     | BACK \<Rightarrow> io_return ())))"

section \<open>The menu and the loop\<close>

definition showMainMenu :: "'w env \<Rightarrow> ('w, action) io" where
  "showMainMenu env =
     io_bind (getCurrentBranch env) (\<lambda>currentBranch.
     io_then (console_log (MenuBranchLine currentBranch))
             (inquirer_prompt
                (MainMenuQ [STATUS, COMMIT_PUSH, PULL, PUSH, BRANCH_MANAGE, MERGE,
                            REMOTE_MANAGE, EXIT])
                (prompt_action env)))"

fun executeAction :: "'w env \<Rightarrow> action \<Rightarrow> ('w, unit) io" where
  "executeAction env STATUS = showStatus env"
| "executeAction env COMMIT_PUSH = commitAndPush env"
| "executeAction env PULL = pullCode env"
| "executeAction env PUSH = pushCode env"
| "executeAction env BRANCH_MANAGE = manageBranches env"
| "executeAction env MERGE = mergeBranch env"
| "executeAction env REMOTE_MANAGE = manageRemotes env"
| "executeAction env EXIT = io_then (console_log FarewellLine) (process_exit 0)"

definition waitForContinue :: "'w env \<Rightarrow> ('w, unit) io" where
  "waitForContinue env =
     io_bind (inquirer_prompt (InputQ ContinueMsg None False) (prompt_input env))
       (\<lambda>_. io_return ())"

text \<open>One turn of the \<^verbatim>\<open>while (true)\<close> of \<^verbatim>\<open>main\<close>: the \<^verbatim>\<open>try\<close> and its \<^verbatim>\<open>catch\<close>.\<close>

definition main_iteration :: "'w env \<Rightarrow> ('w, unit) io" where
  "main_iteration env =
     io_catch
       (io_bind (showMainMenu env) (\<lambda>action.
        io_then (executeAction env action)
                (if action \<noteq> EXIT
                 then io_then (waitForContinue env) (console_log BlankLine)
                 else io_return ())))
       (\<lambda>err.
          if isTtyError err
          then io_then (console_log NonInteractiveLine) (process_exit 1)
          else io_then (handleError err OpExecute)
                 (io_catch (waitForContinue env) (\<lambda>waitErr. io_return ())))"

text \<open>
  The loop never ends by itself, so it runs on fuel: \<open>None\<close> says that the process is
  still looping after that many turns, \<open>Some\<close> gives how it left the loop.
\<close>

fun main_loop :: "nat \<Rightarrow> 'w env \<Rightarrow> 'w \<Rightarrow> (unit outcome \<times> 'w \<times> event list) option" where
  "main_loop 0 env w = None"
| "main_loop (Suc n) env w =
     (case main_iteration env w of
        (Returned _, w1, t1) \<Rightarrow>
          (case main_loop n env w1 of
             None \<Rightarrow> None
           | Some (r, w2, t2) \<Rightarrow> Some (r, w2, t1 @ t2))
      | (Threw e, w1, t1) \<Rightarrow> Some (Threw e, w1, t1)
      | (Exited c, w1, t1) \<Rightarrow> Some (Exited c, w1, t1))"

definition main :: "nat \<Rightarrow> 'w env \<Rightarrow> 'w \<Rightarrow> (unit outcome \<times> 'w \<times> event list) option" where
  "main n env w =
     (case checkIsRepo env w of
        (Returned _, w1, t1) \<Rightarrow>
          (case main_loop n env w1 of
             None \<Rightarrow> None
           | Some (r, w2, t2) \<Rightarrow> Some (r, w2, t1 @ t2))
      | (Threw e, w1, t1) \<Rightarrow> Some (Threw e, w1, t1)
      | (Exited c, w1, t1) \<Rightarrow> Some (Exited c, w1, t1))"

text \<open>
  The script: \<^verbatim>\<open>main().catch(err => { console.error(...); process.exit(1) })\<close>.
  The result is the exit code of the process, when it ends within the fuel. A \<^verbatim>\<open>main\<close>
  that returned would let the process end with code 0.
\<close>

definition run :: "nat \<Rightarrow> 'w env \<Rightarrow> 'w \<Rightarrow> (nat \<times> 'w \<times> event list) option" where
  "run n env w =
     (case main n env w of
        None \<Rightarrow> None
      | Some (Threw e, w1, t1) \<Rightarrow> Some (1, w1, t1 @ [Log (UnexpectedLine e)])
      | Some (Exited c, w1, t1) \<Rightarrow> Some (c, w1, t1)
      | Some (Returned _, w1, t1) \<Rightarrow> Some (0, w1, t1))"

section \<open>Notions used in the statements\<close>

text \<open>The events that \<^verbatim>\<open>handleError(err, operation)\<close> leaves.\<close>

fun error_events :: "js_error \<Rightarrow> operation \<Rightarrow> event list" where
  "error_events err operation =
     Log (ErrorLine operation (message err)) #
     (case stderr err of
        None \<Rightarrow> []
      | Some s \<Rightarrow> if s \<noteq> [] then [Log (DetailLine s)] else [])"

text \<open>The pause prompt of \<^verbatim>\<open>waitForContinue\<close>, and how often a trace shows it.\<close>

definition pause_question :: question where
  "pause_question = InputQ ContinueMsg None False"

fun is_pause :: "event \<Rightarrow> bool" where
  "is_pause (Ask q res) = (q = pause_question)"
| "is_pause _ = False"

definition pauses :: "event list \<Rightarrow> nat" where
  "pauses tr = length (filter is_pause tr)"

text \<open>The choices of the two menus, in the order of the source.\<close>

definition main_menu :: question where
  "main_menu = MainMenuQ [STATUS, COMMIT_PUSH, PULL, PUSH, BRANCH_MANAGE, MERGE,
                          REMOTE_MANAGE, EXIT]"

definition remote_menu :: question where
  "remote_menu = RemoteMenuQ [ADD, UPDATE, DELETE, BACK]"

text \<open>
  An error is reported under an operation name when its message line is in the trace,
  and its detail line too when the error has detail text.
\<close>

definition reported_as :: "operation \<Rightarrow> js_error \<Rightarrow> event list \<Rightarrow> bool" where
  "reported_as operation err tr =
     (Log (ErrorLine operation (message err)) \<in> set tr \<and>
      (case stderr err of
         None \<Rightarrow> True
       | Some s \<Rightarrow> s = [] \<or> Log (DetailLine s) \<in> set tr))"

text \<open>
  A trace in which every failure has been dealt with where it happened: every call and
  every prompt that failed is reported under one of the given operation names, no menu
  prompt has failed, and the pause prompt has not been shown.
\<close>

definition local_trace :: "operation set \<Rightarrow> event list \<Rightarrow> bool" where
  "local_trace ops tr =
     ((\<forall>c e. Call c (Failed e) \<in> set tr \<longrightarrow> (\<exists>operation\<in>ops. reported_as operation e tr)) \<and>
      (\<forall>q e. Ask q (Failed e) \<in> set tr \<longrightarrow>
         q \<noteq> remote_menu \<and> q \<noteq> main_menu \<and> (\<exists>operation\<in>ops. reported_as operation e tr)) \<and>
      (\<forall>q res. Ask q res \<in> set tr \<longrightarrow> q \<noteq> pause_question))"

text \<open>The error of an event that is a failed call or a failed prompt.\<close>

fun failure :: "event \<Rightarrow> js_error option" where
  "failure (Call c (Failed e)) = Some e"
| "failure (Ask q (Failed e)) = Some e"
| "failure _ = None"

text \<open>The operation names that the handlers pass to \<^verbatim>\<open>handleError\<close>; the loop passes \<open>OpExecute\<close>.\<close>

definition handler_ops :: "operation set" where
  "handler_ops = {OpShowStatus, OpCommitCode, OpPull, OpPush, OpSwitchBranch, OpMergeBranch,
                  OpAddRemote, OpUpdateRemote, OpDeleteRemote}"

text \<open>
  The world and the trace after \<open>k\<close> turns of the loop that have all returned; \<open>None\<close>
  when one of them has not returned.
\<close>

fun turns :: "nat \<Rightarrow> 'w env \<Rightarrow> 'w \<Rightarrow> ('w \<times> event list) option" where
  "turns 0 env w = Some (w, [])"
| "turns (Suc k) env w =
     (case main_iteration env w of
        (Returned _, w1, t1) \<Rightarrow>
          (case turns k env w1 of
             None \<Rightarrow> None
           | Some (w2, t2) \<Rightarrow> Some (w2, t1 @ t2))
      | (Threw e, w1, t1) \<Rightarrow> None
      | (Exited c, w1, t1) \<Rightarrow> None)"

text \<open>The lines that the remote-management handler prints for the remotes.\<close>

definition remote_lines :: "remote list \<Rightarrow> event list" where
  "remote_lines rs =
     (if rs = [] then [Log NoRemotesYetLine]
      else Log RemotesHeaderLine # map (\<lambda>r. Log (RemoteEntryLine (name r) (refs_fetch r))) rs)"

section \<open>Concrete collaborators\<close>

text \<open>
  A world that counts the calls made so far, and collaborators that answer every call:
  a repository on branch main with one modified file, the branches main and dev, and
  the remotes upstream and origin; the user picks dev, confirms, and leaves the menu.
\<close>

definition sample_error :: js_error where
  "sample_error = \<lparr>message = ''rejected'', stderr = Some ''fatal: no access'', isTtyError = False\<rparr>"

definition tty_error :: js_error where
  "tty_error = \<lparr>message = ''no terminal'', stderr = None, isTtyError = True\<rparr>"

definition sample_env :: "nat env" where
  "sample_env =
     \<lparr>git_checkIsRepo = (\<lambda>w. (Inr True, Suc w)),
      git_branch = (\<lambda>w. (Inr \<lparr>current = ''main'', all_names = [''main'', ''dev'']\<rparr>, Suc w)),
      git_status = (\<lambda>w. (Inr \<lparr>status_current = ''main'', tracking = None, ahead = 0,
                               behind = 0, modified = [''a.txt''], not_added = [],
                               staged = []\<rparr>, Suc w)),
      git_add = (\<lambda>p w. (Inr (), Suc w)),
      git_commit = (\<lambda>m w. (Inr (), Suc w)),
      git_pull = (\<lambda>w. (Inr \<lparr>changes = 0, insertions = 0, deletions = 0\<rparr>, Suc w)),
      git_push = (\<lambda>r b w. (Inr (), Suc w)),
      git_branchLocal = (\<lambda>w. (Inr \<lparr>current = ''main'', all_names = [''main'', ''dev'']\<rparr>, Suc w)),
      git_checkout = (\<lambda>b w. (Inr (), Suc w)),
      git_merge = (\<lambda>bs w. (Inr (), Suc w)),
      git_getRemotes = (\<lambda>w. (Inr [\<lparr>name = ''upstream'', refs_fetch = ''u.git''\<rparr>,
                                     \<lparr>name = ''origin'', refs_fetch = ''o.git''\<rparr>], Suc w)),
      git_addRemote = (\<lambda>n u w. (Inr (), Suc w)),
      git_remote = (\<lambda>args w. (Inr (), Suc w)),
      git_removeRemote = (\<lambda>n w. (Inr (), Suc w)),
      prompt_input = (\<lambda>q w. (Inr ''fix'', Suc w)),
      prompt_list = (\<lambda>q w. (Inr ''dev'', Suc w)),
      prompt_confirm = (\<lambda>q w. (Inr True, Suc w)),
      prompt_action = (\<lambda>q w. (Inr EXIT, Suc w)),
      prompt_remote_action = (\<lambda>q w. (Inr BACK, Suc w))\<rparr>"

text \<open>Variations: one call fails, or the user answers differently.\<close>

definition interrupt_error :: js_error where
  "interrupt_error = \<lparr>message = ''prompt closed'', stderr = None, isTtyError = False\<rparr>"

definition failing_pull_env :: "nat env" where
  "failing_pull_env =
     sample_env\<lparr>git_pull := (\<lambda>w. (Inl sample_error, Suc w)),
                 prompt_action := (\<lambda>q w. (Inr PULL, Suc w))\<rparr>"

definition failing_branch_env :: "nat env" where
  "failing_branch_env = sample_env\<lparr>git_branch := (\<lambda>w. (Inl sample_error, Suc w))\<rparr>"

definition failing_remotes_env :: "nat env" where
  "failing_remotes_env =
     sample_env\<lparr>git_getRemotes := (\<lambda>w. (Inl sample_error, Suc w)),
                 prompt_action := (\<lambda>q w. (Inr REMOTE_MANAGE, Suc w))\<rparr>"

definition failing_check_env :: "nat env" where
  "failing_check_env = sample_env\<lparr>git_checkIsRepo := (\<lambda>w. (Inl sample_error, Suc w))\<rparr>"

definition tty_commit_env :: "nat env" where
  "tty_commit_env =
     sample_env\<lparr>prompt_action := (\<lambda>q w. (Inr COMMIT_PUSH, Suc w)),
                 prompt_input := (\<lambda>q w. if q = InputQ CommitMessageMsg None True
                                          then (Inl tty_error, Suc w) else (Inr [], Suc w))\<rparr>"

definition tty_menu_env :: "nat env" where
  "tty_menu_env = sample_env\<lparr>prompt_action := (\<lambda>q w. (Inl tty_error, Suc w))\<rparr>"

text \<open>The pause prompt fails when it is the fourth call, and answers otherwise.\<close>

definition interrupted_pause_env :: "nat env" where
  "interrupted_pause_env =
     sample_env\<lparr>prompt_action := (\<lambda>q w. (Inr PULL, Suc w)),
                 prompt_input := (\<lambda>q w. if w = 3 then (Inl interrupt_error, Suc w)
                                          else (Inr [], Suc w))\<rparr>"

definition pulling_env :: "nat env" where
  "pulling_env = sample_env\<lparr>prompt_action := (\<lambda>q w. (Inr PULL, Suc w))\<rparr>"

definition no_remote_env :: "nat env" where
  "no_remote_env = sample_env\<lparr>git_getRemotes := (\<lambda>w. (Inr [], Suc w))\<rparr>"

definition clean_env :: "nat env" where
  "clean_env =
     sample_env\<lparr>git_status := (\<lambda>w. (Inr \<lparr>status_current = ''main'', tracking = None,
                                            ahead = 0, behind = 0, modified = [],
                                            not_added = [], staged = [''b.txt'']\<rparr>, Suc w))\<rparr>"

definition declining_env :: "nat env" where
  "declining_env = sample_env\<lparr>prompt_confirm := (\<lambda>q w. (Inr False, Suc w))\<rparr>"

definition upstream_only_env :: "nat env" where
  "upstream_only_env =
     sample_env\<lparr>git_getRemotes :=
                   (\<lambda>w. (Inr [\<lparr>name = ''upstream'', refs_fetch = ''u.git''\<rparr>], Suc w))\<rparr>"

definition single_branch_env :: "nat env" where
  "single_branch_env =
     sample_env\<lparr>git_branchLocal :=
                   (\<lambda>w. (Inr \<lparr>current = ''main'', all_names = [''main'']\<rparr>, Suc w))\<rparr>"

definition failing_remote_menu_env :: "nat env" where
  "failing_remote_menu_env =
     sample_env\<lparr>prompt_remote_action := (\<lambda>q w. (Inl interrupt_error, Suc w))\<rparr>"

definition adding_remote_env :: "nat env" where
  "adding_remote_env =
     sample_env\<lparr>prompt_remote_action := (\<lambda>q w. (Inr ADD, Suc w)),
                 git_addRemote := (\<lambda>n u w. (Inl sample_error, Suc w))\<rparr>"

text \<open>The branch query fails, and then the pause prompt fails with \<^verbatim>\<open>isTtyError\<close>.\<close>

definition swallowing_env :: "nat env" where
  "swallowing_env =
     sample_env\<lparr>git_branch := (\<lambda>w. (Inl sample_error, Suc w)),
                 prompt_input := (\<lambda>q w. (Inl tty_error, Suc w))\<rparr>"

definition not_a_repo_env :: "nat env" where
  "not_a_repo_env = sample_env\<lparr>git_checkIsRepo := (\<lambda>w. (Inr False, Suc w))\<rparr>"

text \<open>The user picks the pull action in the first turn and the exit action after it.\<close>

definition two_turn_env :: "nat env" where
  "two_turn_env =
     sample_env\<lparr>prompt_action := (\<lambda>q w. if w < 3 then (Inr PULL, Suc w) else (Inr EXIT, Suc w))\<rparr>"

text \<open>No remote is configured, and the pull fails.\<close>

definition no_remote_failing_pull_env :: "nat env" where
  "no_remote_failing_pull_env =
     sample_env\<lparr>git_getRemotes := (\<lambda>w. (Inr [], Suc w)),
                 git_pull := (\<lambda>w. (Inl sample_error, Suc w))\<rparr>"

section \<open>Rules for the state transformers\<close>

text \<open>
  \<^verbatim>\<open>trim\<close> on a string with a no-break space (U+00A0) in front and a tab and an
  ideographic space (U+3000) behind: the white space inside the string stays.
\<close>

lemma trim_white_space:
  "trim [CHR 0xC2, CHR 0xA0, CHR ''a'', CHR '' '', CHR ''b'', CHR 0x09, CHR 0xE3, CHR 0x80, CHR 0x80]
     = ''a b''"
  "trim '' fix '' = ''fix''"
  "trim [CHR 0x0A, CHR 0xE2, CHR 0x80, CHR 0xA8] = []"
  by (simp_all add: trim_def white_space_def)

lemma io_bindE:
  assumes "io_bind m f w = (r, w', tr)"
  obtains (ret) x w1 t1 t2 where "m w = (Returned x, w1, t1)" "f x w1 = (r, w', t2)" "tr = t1 @ t2"
  | (thr) e where "m w = (Threw e, w', tr)" "r = Threw e"
  | (ext) c where "m w = (Exited c, w', tr)" "r = Exited c"
  using assms unfolding io_bind_def
  by (auto split: prod.splits outcome.splits)

lemma io_thenE:
  assumes "io_then m k w = (r, w', tr)"
  obtains (ret) x w1 t1 t2 where "m w = (Returned x, w1, t1)" "k w1 = (r, w', t2)" "tr = t1 @ t2"
  | (thr) e where "m w = (Threw e, w', tr)" "r = Threw e"
  | (ext) c where "m w = (Exited c, w', tr)" "r = Exited c"
  using assms unfolding io_then_def by (erule io_bindE) auto

lemma io_catchE:
  assumes "io_catch m h w = (r, w', tr)"
  obtains (thr) e w1 t1 t2 where "m w = (Threw e, w1, t1)" "h e w1 = (r, w', t2)" "tr = t1 @ t2"
  | (ret) x where "m w = (Returned x, w', tr)" "r = Returned x"
  | (ext) c where "m w = (Exited c, w', tr)" "r = Exited c"
  using assms unfolding io_catch_def
  by (auto split: prod.splits outcome.splits)

lemma gitE:
  assumes "git c f w = (r, w', tr)"
  obtains (ok) v where "f w = (Inr v, w')" "r = Returned v" "tr = [Call c Ok]"
  | (failed) e where "f w = (Inl e, w')" "r = Threw e" "tr = [Call c (Failed e)]"
  using assms unfolding git_def
  by (auto split: prod.splits sum.splits)

lemma inquirer_promptE:
  assumes "inquirer_prompt q f w = (r, w', tr)"
  obtains (ok) v where "f q w = (Inr v, w')" "r = Returned v" "tr = [Ask q Ok]"
  | (failed) e where "f q w = (Inl e, w')" "r = Threw e" "tr = [Ask q (Failed e)]"
  using assms unfolding inquirer_prompt_def
  by (auto split: prod.splits sum.splits)

lemma console_log_eq [simp]:
  "(console_log l w = (r, w', tr)) = (r = Returned () \<and> w' = w \<and> tr = [Log l])"
  by (auto simp: console_log_def)

lemma io_return_eq [simp]:
  "(io_return x w = (r, w', tr)) = (r = Returned x \<and> w' = w \<and> tr = [])"
  by (auto simp: io_return_def)

lemma io_throw_eq [simp]:
  "(io_throw e w = (r, w', tr)) = (r = Threw e \<and> w' = w \<and> tr = [])"
  by (auto simp: io_throw_def)

lemma process_exit_eq [simp]:
  "(process_exit c w = (r, w', tr)) = (r = Exited c \<and> w' = w \<and> tr = [])"
  by (auto simp: process_exit_def)

lemma handleError_eq:
  "handleError err operation w = (Returned (), w, error_events err operation)"
  by (simp add: handleError_def io_then_def io_bind_def console_log_def io_return_def
      split: option.splits)

lemma handleError_iff [simp]:
  "(handleError err operation w = (r, w', tr)) =
     (r = Returned () \<and> w' = w \<and> tr = error_events err operation)"
  by (auto simp: handleError_eq)

lemma Call_notin_error_events [simp]: "Call c res \<notin> set (error_events err operation)"
  by (simp split: option.splits)

lemma Ask_notin_error_events [simp]: "Ask q res \<notin> set (error_events err operation)"
  by (simp split: option.splits)

lemma ErrorLine_in_error_events [simp]:
  "Log (ErrorLine operation (message err)) \<in> set (error_events err operation)"
  by simp

lemma error_events_not_Nil [simp]: "error_events err operation \<noteq> []"
  by simp

declare error_events.simps [simp del]

lemmas io_elims = io_bindE io_thenE io_catchE gitE inquirer_promptE

lemma getCurrentBranchE:
  assumes "getCurrentBranch env w = (r, w', tr)"
  obtains (ok) b where "git_branch env w = (Inr b, w')" "r = Returned (current b)"
      "tr = [Call Branch Ok]"
  | (failed) e where "git_branch env w = (Inl e, w')" "r = Threw e"
      "tr = [Call Branch (Failed e)]"
  using assms unfolding getCurrentBranch_def
  by (auto elim!: io_elims)

lemma getRemotesE:
  assumes "getRemotes env w = (r, w', tr)"
  obtains (ok) rs where "git_getRemotes env w = (Inr rs, w')" "r = Returned rs"
      "tr = [Call GetRemotes Ok]"
  | (failed) e where "git_getRemotes env w = (Inl e, w')" "r = Threw e"
      "tr = [Call GetRemotes (Failed e)]"
  using assms unfolding getRemotes_def
  by (auto elim!: io_elims)

lemma find_origin_None:
  "(find (\<lambda>r. name r = ''origin'') rs = None) = (''origin'' \<notin> name ` set rs)"
  by (induction rs) auto

lemma find_origin_Some:
  "find (\<lambda>r. name r = ''origin'') rs = Some r \<Longrightarrow> name r = ''origin'' \<and> r \<in> set rs"
  by (induction rs) (auto split: if_splits)

lemma defaultRemoteName_origin:
  "remotes \<noteq> [] \<Longrightarrow> defaultRemoteName remotes =
     Some (if ''origin'' \<in> name ` set remotes then ''origin'' else name (hd remotes))"
proof (cases remotes)
  case Nil
  assume "remotes \<noteq> []"
  with Nil show ?thesis by simp
next
  case (Cons r0 rs)
  show ?thesis
  proof (cases "find (\<lambda>r. name r = ''origin'') (r0 # rs)")
    case None
    with find_origin_None [of "r0 # rs"] have "''origin'' \<notin> name ` set (r0 # rs)"
      by blast
    with None Cons show ?thesis by simp
  next
    case (Some r)
    then have "name r = ''origin'' \<and> r \<in> set (r0 # rs)"
      by (rule find_origin_Some)
    then have "name r = ''origin''" and "''origin'' \<in> name ` set (r0 # rs)"
      by force+
    with Some Cons show ?thesis by simp
  qed
qed

lemma getDefaultRemoteE:
  assumes "getDefaultRemote env w = (r, w', tr)"
  obtains (ok) rs where "git_getRemotes env w = (Inr rs, w')" "rs \<noteq> []"
      "r = Returned (if ''origin'' \<in> name ` set rs then ''origin'' else name (hd rs))"
      "tr = [Call GetRemotes Ok]"
  | (none) "git_getRemotes env w = (Inr [], w')" "r = Threw no_remote_error"
      "tr = [Call GetRemotes Ok]"
  | (failed) e where "git_getRemotes env w = (Inl e, w')" "r = Threw e"
      "tr = [Call GetRemotes (Failed e)]"
proof -
  from assms show thesis
    unfolding getDefaultRemote_def
  proof (cases rule: io_bindE)
    case (ret rs w1 t1 t2)
    from ret(1) have g: "git_getRemotes env w = (Inr rs, w1)" "t1 = [Call GetRemotes Ok]"
      by (auto elim: getRemotesE)
    show ?thesis
    proof (cases "rs = []")
      case True
      with ret g show ?thesis by (auto intro: none)
    next
      case False
      with ret g show ?thesis
        by (auto simp: defaultRemoteName_origin intro!: ok [of rs])
    qed
  next
    case (thr e)
    then show ?thesis by (auto elim!: getRemotesE intro: failed)
  next
    case (ext c)
    then show ?thesis by (auto elim!: getRemotesE)
  qed
qed

lemma commitAndPush_pullE:
  assumes "commitAndPush_pull env w = (r, w', tr)"
  obtains (pulled) s where "git_pull env w = (Inr s, w')" "r = Returned True"
      "tr = [Log SyncPullingLine, Call Pull Ok, Log SyncPulledLine] @
            (if changes s \<noteq> 0 \<or> insertions s \<noteq> 0 \<or> deletions s \<noteq> 0
             then [Log (SyncMergedLine s)] else [])"
  | (failed) e where "git_pull env w = (Inl e, w')" "r = Returned False"
      "tr = [Log SyncPullingLine, Call Pull (Failed e)] @ error_events e OpPull @
            [Log PullFailedSkipPushLine]"
  using assms unfolding commitAndPush_pull_def
  by (auto elim!: io_elims split: if_splits)


lemma DetailLine_in_error_events [simp]:
  "stderr err = Some s \<Longrightarrow>
     (Log (DetailLine s) \<in> set (error_events err operation)) = (s \<noteq> [])"
  by (auto simp add: error_events.simps)

lemma log_each_eq: "log_each ls w = (Returned (), w, map Log ls)"
  by (induction ls arbitrary: w)
     (simp_all add: io_return_def io_then_def io_bind_def console_log_def)

lemma log_each_iff [simp]:
  "(log_each ls w = (r, w', tr)) = (r = Returned () \<and> w' = w \<and> tr = map Log ls)"
  by (auto simp: log_each_eq)

lemma Call_notin_map_Log [simp]: "Call c res \<notin> set (map Log ls)"
  by auto

lemma Ask_notin_map_Log [simp]: "Ask q res \<notin> set (map Log ls)"
  by auto

lemma Call_notin_Log_image [simp]: "Call c res \<notin> (\<lambda>x. Log (f x)) ` S"
  by auto

lemma Ask_notin_Log_image [simp]: "Ask q res \<notin> (\<lambda>x. Log (f x)) ` S"
  by auto

lemmas local_defs = local_trace_def reported_as_def pause_question_def main_menu_def
  remote_menu_def

lemma showStatus_local:
  assumes "showStatus env w = (r, w', tr)"
  shows "r = Returned () \<and> local_trace {OpShowStatus} tr"
  using assms unfolding showStatus_def
  apply (auto elim!: io_elims split: if_splits)
  apply (simp_all add: local_defs split: option.splits)
  done

lemma pullCode_local:
  assumes "pullCode env w = (r, w', tr)"
  shows "r = Returned () \<and> local_trace {OpPull} tr"
  using assms unfolding pullCode_def
  apply (auto elim!: io_elims split: if_splits)
  apply (simp_all add: local_defs split: option.splits)
  done

lemma pushCode_local:
  assumes "pushCode env w = (r, w', tr)"
  shows "r = Returned () \<and> local_trace {OpPush} tr"
  using assms unfolding pushCode_def
  apply (auto elim!: io_elims getRemotesE getCurrentBranchE split: if_splits)
  apply (simp_all add: local_defs split: option.splits)
  done

lemma manageBranches_local:
  assumes "manageBranches env w = (r, w', tr)"
  shows "r = Returned () \<and> local_trace {OpSwitchBranch} tr"
  using assms unfolding manageBranches_def Let_def
  apply (auto elim!: io_elims split: if_splits)
  apply (simp_all add: local_defs split: option.splits)
  apply blast+
  done

lemma mergeBranch_local:
  assumes "mergeBranch env w = (r, w', tr)"
  shows "r = Returned () \<and> local_trace {OpMergeBranch} tr"
  using assms unfolding mergeBranch_def Let_def
  apply (auto elim!: io_elims getCurrentBranchE split: if_splits)
  apply (simp_all add: local_defs split: option.splits)
  done

lemma addRemote_local:
  assumes "addRemote env w = (r, w', tr)"
  shows "r = Returned () \<and> local_trace {OpAddRemote} tr"
  using assms unfolding addRemote_def
  apply (auto elim!: io_elims split: if_splits)
  apply (simp_all add: local_defs split: option.splits)
  done

lemma updateRemote_local:
  assumes "updateRemote env w = (r, w', tr)"
  shows "r = Returned () \<and> local_trace {OpUpdateRemote} tr"
  using assms unfolding updateRemote_def
  apply (auto elim!: io_elims getRemotesE split: if_splits)
  apply (simp_all add: local_defs split: option.splits)
  done

lemma deleteRemote_local:
  assumes "deleteRemote env w = (r, w', tr)"
  shows "r = Returned () \<and> local_trace {OpDeleteRemote} tr"
  using assms unfolding deleteRemote_def
  apply (auto elim!: io_elims getRemotesE split: if_splits)
  apply (simp_all add: local_defs split: option.splits)
  done



lemma reported_as_mono:
  "reported_as operation e tr \<Longrightarrow> set tr \<subseteq> set tr' \<Longrightarrow> reported_as operation e tr'"
  unfolding reported_as_def by (auto split: option.splits)

lemma local_trace_append:
  assumes l1: "local_trace ops t1" and l2: "local_trace ops t2"
  shows "local_trace ops (t1 @ t2)"
proof -
  have r1: "\<exists>operation\<in>ops. reported_as operation e (t1 @ t2)"
    if "\<exists>operation\<in>ops. reported_as operation e t1" for e
    using that reported_as_mono [of _ e t1 "t1 @ t2"] by auto
  have r2: "\<exists>operation\<in>ops. reported_as operation e (t1 @ t2)"
    if "\<exists>operation\<in>ops. reported_as operation e t2" for e
    using that reported_as_mono [of _ e t2 "t1 @ t2"] by auto
  have calls: "\<exists>operation\<in>ops. reported_as operation e (t1 @ t2)"
    if "Call c (Failed e) \<in> set (t1 @ t2)" for c e
  proof -
    from that have "Call c (Failed e) \<in> set t1 \<or> Call c (Failed e) \<in> set t2" by simp
    then show ?thesis
      using l1 l2 r1 r2 unfolding local_trace_def by blast
  qed
  have asks: "q \<noteq> remote_menu \<and> q \<noteq> main_menu \<and>
      (\<exists>operation\<in>ops. reported_as operation e (t1 @ t2))"
    if "Ask q (Failed e) \<in> set (t1 @ t2)" for q e
  proof -
    from that have "Ask q (Failed e) \<in> set t1 \<or> Ask q (Failed e) \<in> set t2" by simp
    then show ?thesis
      using l1 l2 r1 r2 unfolding local_trace_def by blast
  qed
  have shown: "q \<noteq> pause_question"
    if "Ask q res \<in> set (t1 @ t2)" for q res
  proof -
    from that have "Ask q res \<in> set t1 \<or> Ask q res \<in> set t2" by simp
    then show ?thesis
      using l1 l2 unfolding local_trace_def by blast
  qed
  show ?thesis
    unfolding local_trace_def using calls asks shown by blast
qed

lemma local_trace_quiet:
  assumes "\<forall>ev\<in>set tr. (\<exists>l. ev = Log l) \<or> (\<exists>c. ev = Call c Ok)
             \<or> (\<exists>q. ev = Ask q Ok \<and> q \<noteq> pause_question)"
  shows "local_trace ops tr"
  using assms unfolding local_trace_def by fastforce


lemma local_trace_mono: "local_trace ops tr \<Longrightarrow> ops \<subseteq> ops' \<Longrightarrow> local_trace ops' tr"
  unfolding local_trace_def by blast

lemma local_trace_Nil: "local_trace ops []"
  by (rule local_trace_quiet) simp

lemma local_trace_Log: "local_trace ops tr \<Longrightarrow> local_trace ops (Log l # tr)"
  using local_trace_append [of ops "[Log l]" tr] local_trace_quiet [of "[Log l]" ops] by simp

lemma local_trace_map_Log: "local_trace ops tr \<Longrightarrow> local_trace ops (map Log ls @ tr)"
proof (rule local_trace_append)
  show "local_trace ops (map Log ls)"
    by (rule local_trace_quiet) auto
qed

lemma local_trace_map_Log_o:
  "local_trace ops tr \<Longrightarrow> local_trace ops (map (Log \<circ> f) xs @ tr)"
  using local_trace_map_Log [of ops tr "map f xs"] by simp

lemma local_trace_map_Log_o_only: "local_trace ops (map (Log \<circ> f) xs)"
  using local_trace_map_Log_o [of ops "[]" f xs] local_trace_quiet [of "[]" ops] by simp

lemma local_trace_Call_Ok: "local_trace ops tr \<Longrightarrow> local_trace ops (Call c Ok # tr)"
  using local_trace_append [of ops "[Call c Ok]" tr] local_trace_quiet [of "[Call c Ok]" ops]
  by simp

lemma local_trace_Ask_Ok:
  "q \<noteq> pause_question \<Longrightarrow> local_trace ops tr \<Longrightarrow> local_trace ops (Ask q Ok # tr)"
  using local_trace_append [of ops "[Ask q Ok]" tr] local_trace_quiet [of "[Ask q Ok]" ops]
  by simp

lemma local_trace_error_events: "local_trace ops (error_events e operation)"
  by (rule local_trace_quiet) (auto simp: error_events.simps split: option.splits)

lemma reported_as_error_events: "reported_as operation e (ev # error_events e operation)"
  unfolding reported_as_def by (auto simp: error_events.simps split: option.splits)

lemma local_trace_Call_Failed:
  "operation \<in> ops \<Longrightarrow> local_trace ops (Call c (Failed e) # error_events e operation)"
  using reported_as_error_events [of operation e "Call c (Failed e)"]
  unfolding local_trace_def by auto

lemma local_trace_Ask_Failed:
  "operation \<in> ops \<Longrightarrow> q \<noteq> pause_question \<Longrightarrow> q \<noteq> main_menu \<Longrightarrow> q \<noteq> remote_menu \<Longrightarrow>
     local_trace ops (Ask q (Failed e) # error_events e operation)"
  using reported_as_error_events [of operation e "Ask q (Failed e)"]
  unfolding local_trace_def by auto

lemma local_trace_Call_Failed_then:
  "operation \<in> ops \<Longrightarrow> local_trace ops rest \<Longrightarrow>
     local_trace ops (Call c (Failed e) # error_events e operation @ rest)"
  using local_trace_append [of ops "Call c (Failed e) # error_events e operation" rest]
    local_trace_Call_Failed [of operation ops c e] by simp

lemmas local_trace_intros = local_trace_Call_Failed_then local_trace_Call_Failed
  local_trace_Ask_Failed local_trace_Log local_trace_Call_Ok local_trace_Ask_Ok
  local_trace_map_Log local_trace_map_Log_o local_trace_map_Log_o_only
  local_trace_error_events local_trace_Nil
  local_trace_append

lemmas menu_defs = pause_question_def main_menu_def remote_menu_def

lemma commitAndPush_pull_local:
  assumes "commitAndPush_pull env w = (r, w', tr)"
  shows "(\<exists>b. r = Returned b) \<and> local_trace {OpPull} tr"
  using assms
  apply (auto elim!: commitAndPush_pullE)
  apply (intro local_trace_intros; simp add: menu_defs)+
  done

lemma commitAndPush_push_local:
  assumes "commitAndPush_push env b w = (r, w', tr)"
  shows "r = Returned () \<and> local_trace {OpPush} tr"
  using assms unfolding commitAndPush_push_def
  apply (auto elim!: io_elims getDefaultRemoteE)
  apply (intro local_trace_intros; simp add: menu_defs)+
  done

lemma commitAndPush_local:
  assumes "commitAndPush env w = (r, w', tr)"
  shows "r = Returned () \<and> local_trace {OpCommitCode, OpPull, OpPush} tr"
proof -
  have pull: "(\<exists>b. r1 = Returned b) \<and> local_trace {OpCommitCode, OpPull, OpPush} t"
    if "commitAndPush_pull env w1 = (r1, w2, t)" for w1 r1 w2 t
    using commitAndPush_pull_local [OF that] by (auto intro: local_trace_mono)
  have push: "r1 = Returned () \<and> local_trace {OpCommitCode, OpPull, OpPush} t"
    if "commitAndPush_push env b w1 = (r1, w2, t)" for b w1 r1 w2 t
    using commitAndPush_push_local [OF that] by (auto intro: local_trace_mono)
  show ?thesis
    using assms unfolding commitAndPush_def
    apply (auto elim!: io_elims getCurrentBranchE dest!: pull push split: if_splits)
    apply (intro local_trace_intros; simp add: menu_defs)+
    done
qed


lemma local_trace_handler_ops:
  "local_trace ops tr \<Longrightarrow> ops \<subseteq> handler_ops \<Longrightarrow> local_trace handler_ops tr"
  by (rule local_trace_mono)

lemma manageRemotes_cases:
  assumes "manageRemotes env w = (r, w', tr)"
  shows "(r = Returned () \<and> local_trace handler_ops tr)
       \<or> (\<exists>e. r = Threw e \<and> tr \<noteq> [] \<and> local_trace handler_ops (butlast tr) \<and>
              (last tr = Call GetRemotes (Failed e) \<or> last tr = Ask remote_menu (Failed e)))"
proof -
  have sub: "r1 = Returned () \<and> local_trace handler_ops t"
    if "addRemote env w1 = (r1, w2, t) \<or> updateRemote env w1 = (r1, w2, t)
        \<or> deleteRemote env w1 = (r1, w2, t)" for w1 r1 w2 t
    using that addRemote_local [of env w1 r1 w2 t] updateRemote_local [of env w1 r1 w2 t]
      deleteRemote_local [of env w1 r1 w2 t]
    by (auto intro: local_trace_mono simp: handler_ops_def)
  have add: "r1 = Returned () \<and> local_trace handler_ops t"
    if "addRemote env w1 = (r1, w2, t)" for w1 r1 w2 t
    using that sub by blast
  have update: "r1 = Returned () \<and> local_trace handler_ops t"
    if "updateRemote env w1 = (r1, w2, t)" for w1 r1 w2 t
    using that sub by blast
  have delete: "r1 = Returned () \<and> local_trace handler_ops t"
    if "deleteRemote env w1 = (r1, w2, t)" for w1 r1 w2 t
    using that sub by blast
  define good where "good = (\<lambda>r tr. (r = Returned () \<and> local_trace handler_ops tr)
       \<or> (\<exists>e. r = Threw e \<and> tr \<noteq> [] \<and> local_trace handler_ops (butlast tr) \<and>
              (last tr = Call GetRemotes (Failed e) \<or> last tr = Ask remote_menu (Failed e))))"
  have "good r tr"
    using assms unfolding manageRemotes_def
    apply (auto elim!: io_elims getRemotesE dest!: add update delete
        split: if_splits remote_action.splits)
    apply (simp_all add: good_def menu_defs butlast_append)
    apply (intro local_trace_intros; simp add: menu_defs)+
    done
  then show ?thesis by (simp add: good_def)
qed

lemma executeAction_cases:
  assumes "executeAction env a w = (r, w', tr)"
  shows "(a = EXIT \<and> r = Exited 0 \<and> w' = w \<and> tr = [Log FarewellLine])
       \<or> (a \<noteq> EXIT \<and> r = Returned () \<and> local_trace handler_ops tr)
       \<or> (a = REMOTE_MANAGE \<and>
           (\<exists>e. r = Threw e \<and> tr \<noteq> [] \<and> local_trace handler_ops (butlast tr) \<and>
              (last tr = Call GetRemotes (Failed e) \<or> last tr = Ask remote_menu (Failed e))))"
proof (cases a)
  case STATUS
  with assms showStatus_local [of env w r w' tr] show ?thesis
    by (auto intro: local_trace_mono simp: handler_ops_def)
next
  case COMMIT_PUSH
  with assms commitAndPush_local [of env w r w' tr] show ?thesis
    by (auto intro: local_trace_mono simp: handler_ops_def)
next
  case PULL
  with assms pullCode_local [of env w r w' tr] show ?thesis
    by (auto intro: local_trace_mono simp: handler_ops_def)
next
  case PUSH
  with assms pushCode_local [of env w r w' tr] show ?thesis
    by (auto intro: local_trace_mono simp: handler_ops_def)
next
  case BRANCH_MANAGE
  with assms manageBranches_local [of env w r w' tr] show ?thesis
    by (auto intro: local_trace_mono simp: handler_ops_def)
next
  case MERGE
  with assms mergeBranch_local [of env w r w' tr] show ?thesis
    by (auto intro: local_trace_mono simp: handler_ops_def)
next
  case REMOTE_MANAGE
  with assms manageRemotes_cases [of env w r w' tr] show ?thesis
    by auto
next
  case EXIT
  with assms show ?thesis
    by (auto elim!: io_elims)
qed

lemma showMainMenuE:
  assumes "showMainMenu env w = (r, w', tr)"
  obtains (chosen) b w1 a where "git_branch env w = (Inr b, w1)"
      "prompt_action env main_menu w1 = (Inr a, w')" "r = Returned a"
      "tr = [Call Branch Ok, Log (MenuBranchLine (current b)), Ask main_menu Ok]"
  | (menu_failed) b w1 e where "git_branch env w = (Inr b, w1)"
      "prompt_action env main_menu w1 = (Inl e, w')" "r = Threw e"
      "tr = [Call Branch Ok, Log (MenuBranchLine (current b)), Ask main_menu (Failed e)]"
  | (branch_failed) e where "git_branch env w = (Inl e, w')" "r = Threw e"
      "tr = [Call Branch (Failed e)]"
  using assms unfolding showMainMenu_def main_menu_def
  by (auto elim!: io_elims getCurrentBranchE)

lemma waitForContinueE:
  assumes "waitForContinue env w = (r, w', tr)"
  obtains (ok) v where "prompt_input env pause_question w = (Inr v, w')" "r = Returned ()"
      "tr = [Ask pause_question Ok]"
  | (failed) e where "prompt_input env pause_question w = (Inl e, w')" "r = Threw e"
      "tr = [Ask pause_question (Failed e)]"
  using assms unfolding waitForContinue_def pause_question_def
  by (auto elim!: io_elims)

lemma pauses_simps [simp]:
  "pauses [] = 0"
  "pauses (Log l # tr) = pauses tr"
  "pauses (Call c res # tr) = pauses tr"
  "pauses (Ask q res # tr) = (if q = pause_question then Suc (pauses tr) else pauses tr)"
  "pauses (t1 @ t2) = pauses t1 + pauses t2"
  by (simp_all add: pauses_def)

lemma pauses_error_events [simp]: "pauses (error_events e operation) = 0"
  by (simp add: error_events.simps split: option.splits)

lemma local_trace_pauses: "local_trace ops tr \<Longrightarrow> pauses tr = 0"
proof -
  assume "local_trace ops tr"
  then have "\<forall>ev\<in>set tr. \<not> is_pause ev"
    unfolding local_trace_def
    by (metis is_pause.elims(2))
  then show ?thesis
    by (simp add: pauses_def filter_empty_conv)
qed

lemma pauses_butlast:
  "tr \<noteq> [] \<Longrightarrow> pauses tr = pauses (butlast tr) + pauses [last tr]"
  using pauses_simps(5) [of "butlast tr" "[last tr]"] by simp

text \<open>What the \<^verbatim>\<open>catch\<close> of the loop does with an error.\<close>

lemma loop_catch:
  assumes "(if isTtyError e
            then io_then (console_log NonInteractiveLine) (process_exit 1)
            else io_then (handleError e OpExecute)
                   (io_catch (waitForContinue env) (\<lambda>waitErr. io_return ()))) w1 = (r, w', t2)"
  shows "(isTtyError e \<and> r = Exited 1 \<and> w' = w1 \<and> t2 = [Log NonInteractiveLine])
       \<or> (\<not> isTtyError e \<and> r = Returned () \<and>
            (\<exists>res. t2 = error_events e OpExecute @ [Ask pause_question res]))"
  using assms
  by (auto elim!: io_elims waitForContinueE split: if_splits)

text \<open>How the \<^verbatim>\<open>try\<close> block of the loop can end.\<close>

lemma loop_try:
  assumes "io_bind (showMainMenu env) (\<lambda>action.
        io_then (executeAction env action)
                (if action \<noteq> EXIT
                 then io_then (waitForContinue env) (console_log BlankLine)
                 else io_return ())) w = (r, w', tr)"
  shows "tr \<noteq> [] \<and>
     ((r = Exited 0 \<and> last tr = Log FarewellLine \<and> local_trace handler_ops (butlast tr))
      \<or> (r = Returned () \<and> last tr = Log BlankLine \<and> butlast tr \<noteq> []
            \<and> last (butlast tr) = Ask pause_question Ok
            \<and> local_trace handler_ops (butlast (butlast tr)))
      \<or> (\<exists>e. r = Threw e \<and> failure (last tr) = Some e \<and> local_trace handler_ops (butlast tr)
            \<and> (\<forall>q res. last tr = Ask q res \<longrightarrow>
                  q = main_menu \<or> q = remote_menu \<or> q = pause_question)))"
proof -
  define good where "good = (\<lambda>r tr. tr \<noteq> [] \<and>
     ((r = Exited 0 \<and> last tr = Log FarewellLine \<and> local_trace handler_ops (butlast tr))
      \<or> (r = Returned () \<and> last tr = Log BlankLine \<and> butlast tr \<noteq> []
            \<and> last (butlast tr) = Ask pause_question Ok
            \<and> local_trace handler_ops (butlast (butlast tr)))
      \<or> (\<exists>e. r = Threw e \<and> failure (last tr) = Some e \<and> local_trace handler_ops (butlast tr)
            \<and> (\<forall>q res. last tr = Ask q res \<longrightarrow>
                  q = main_menu \<or> q = remote_menu \<or> q = pause_question))))"
  have "good r tr"
    using assms
    apply (auto elim!: io_elims showMainMenuE waitForContinueE dest!: executeAction_cases
        split: if_splits)
    apply (simp_all add: good_def butlast_append)
    apply (intro local_trace_intros; simp add: menu_defs)+
    done
  then show ?thesis by (simp add: good_def)
qed

lemma local_trace_facts:
  assumes "local_trace ops tr"
  shows "Ask pause_question res \<notin> set tr"
    and "Ask main_menu (Failed e) \<notin> set tr"
    and "Ask remote_menu (Failed e) \<notin> set tr"
    and "Ask q (Failed e) \<in> set tr \<Longrightarrow> \<exists>operation\<in>ops. reported_as operation e tr"
  using assms unfolding local_trace_def by blast+

lemma in_set_snoc: "x \<in> set tr \<Longrightarrow> tr \<noteq> [] \<Longrightarrow> x \<in> set (butlast tr) \<or> last tr = x"
  by (induction tr) (auto split: if_splits)

lemma settled:
  assumes "local_trace handler_ops pre" and "\<forall>ev\<in>set post. failure ev = None"
    and "tr = pre @ post"
  shows "Ask main_menu (Failed e) \<notin> set tr \<and> Ask remote_menu (Failed e) \<notin> set tr
     \<and> (Ask q (Failed e) \<in> set tr \<longrightarrow> (\<exists>operation\<in>handler_ops. reported_as operation e tr))"
proof -
  have post: "Ask q' (Failed e') \<notin> set post" for q' e'
    using assms(2) by fastforce
  have "\<exists>operation\<in>handler_ops. reported_as operation e tr" if "Ask q (Failed e) \<in> set pre"
  proof -
    from local_trace_facts(4) [OF assms(1) that]
    obtain operation where "operation \<in> handler_ops" "reported_as operation e pre"
      by blast
    moreover have "set pre \<subseteq> set tr"
      using assms(3) by simp
    ultimately show ?thesis
      by (blast intro: reported_as_mono)
  qed
  with post local_trace_facts(2,3) [OF assms(1)] assms(3) show ?thesis
    by auto
qed

section \<open>The claims\<close>

lemmas io_defs = io_bind_def io_then_def io_catch_def io_return_def io_throw_def
  console_log_def process_exit_def git_def inquirer_prompt_def

subsection \<open>Commit and sync: a failed pull\<close>

lemma commitAndPush_pushE:
  assumes "commitAndPush_push env b w = (r, w', tr)"
  obtains "r = Returned ()" "\<forall>e. Call Pull (Failed e) \<notin> set tr"
  using assms unfolding commitAndPush_push_def
  by (auto elim!: io_elims getDefaultRemoteE split: if_splits)

text \<open>
  Claim C1. In every run of the commit-and-sync handler the handler returns normally,
  and when the pull call has failed in that run, no push call is made in it: the
  failure is reported under the pull operation (message, and detail text when there is
  some), and the notice that the push is skipped is the last thing the handler prints.
\<close>

theorem commitAndPush_failed_pull:
  assumes run: "commitAndPush env w = (r, w', tr)"
  shows "r = Returned () \<and>
     (\<forall>e. Call Pull (Failed e) \<in> set tr \<longrightarrow>
        (\<forall>remote branch res. Call (Push remote branch) res \<notin> set tr)
      \<and> reported_as OpPull e tr
      \<and> last tr = Log PullFailedSkipPushLine)"
proof -
  define handled where "handled = (\<lambda>tr. \<forall>e. Call Pull (Failed e) \<in> set tr \<longrightarrow>
        (\<forall>remote branch res. Call (Push remote branch) res \<notin> set tr)
      \<and> reported_as OpPull e tr
      \<and> last tr = Log PullFailedSkipPushLine)"
  have "r = Returned () \<and> handled tr"
    using run
    unfolding commitAndPush_def
    apply (auto elim!: io_elims getCurrentBranchE commitAndPush_pullE commitAndPush_pushE
        split: if_splits)
    apply (simp_all add: handled_def reported_as_def split: option.splits)
    done
  then show ?thesis by (simp add: handled_def)
qed

lemma failing_pull_run:
  "commitAndPush failing_pull_env 0 =
     (Returned (), 6,
      [Call Branch Ok, Call Status Ok, Ask (InputQ CommitMessageMsg None True) Ok,
       Log AddingLine, Call (Add ''.'') Ok, Log CommittingLine, Call (Commit ''fix'') Ok,
       Log CommitOkLine, Log SyncPullingLine, Call Pull (Failed sample_error),
       Log (ErrorLine OpPull ''rejected''), Log (DetailLine ''fatal: no access''),
       Log PullFailedSkipPushLine])"
  by (simp add: commitAndPush_def commitAndPush_pull_def getCurrentBranch_def handleError_def
      trim_def white_space_def io_defs failing_pull_env_def sample_env_def sample_error_def)

theorem commitAndPush_failed_pull_witness:
  "Call Pull (Failed sample_error) \<in> set (snd (snd (commitAndPush failing_pull_env 0)))
   \<and> fst (commitAndPush failing_pull_env 0) = Returned ()
   \<and> (\<forall>remote branch res.
         Call (Push remote branch) res \<notin> set (snd (snd (commitAndPush failing_pull_env 0))))
   \<and> reported_as OpPull sample_error (snd (snd (commitAndPush failing_pull_env 0)))
   \<and> last (snd (snd (commitAndPush failing_pull_env 0))) = Log PullFailedSkipPushLine"
proof -
  have failed: "Call Pull (Failed sample_error) \<in> set (snd (snd (commitAndPush failing_pull_env 0)))"
    by (simp add: failing_pull_run)
  from commitAndPush_failed_pull [OF failing_pull_run] failed show ?thesis
    unfolding failing_pull_run snd_conv fst_conv by blast
qed

subsection \<open>The default remote\<close>

text \<open>
  Claim C2. When the remotes are listed and the list is not empty, the default remote
  is the one named origin if there is one, and the first remote of the list otherwise.
  For the remotes upstream and origin it is origin; for upstream alone it is upstream.
\<close>

theorem getDefaultRemote_selection:
  assumes "git_getRemotes env w = (Inr remotes, w1)" and "remotes \<noteq> []"
  shows "getDefaultRemote env w =
     (Returned (if ''origin'' \<in> name ` set remotes then ''origin'' else name (hd remotes)),
      w1, [Call GetRemotes Ok])"
  using assms
  by (simp add: getDefaultRemote_def getRemotes_def io_defs defaultRemoteName_origin)

theorem getDefaultRemote_selection_witness:
  "getDefaultRemote sample_env 0 = (Returned ''origin'', 1, [Call GetRemotes Ok])
   \<and> getDefaultRemote upstream_only_env 0 = (Returned ''upstream'', 1, [Call GetRemotes Ok])"
proof -
  have both: "git_getRemotes sample_env 0 =
      (Inr [\<lparr>name = ''upstream'', refs_fetch = ''u.git''\<rparr>,
            \<lparr>name = ''origin'', refs_fetch = ''o.git''\<rparr>], 1)"
    by (simp add: sample_env_def)
  have one: "git_getRemotes upstream_only_env 0 =
      (Inr [\<lparr>name = ''upstream'', refs_fetch = ''u.git''\<rparr>], 1)"
    by (simp add: upstream_only_env_def sample_env_def)
  from getDefaultRemote_selection [OF both] getDefaultRemote_selection [OF one]
  show ?thesis by simp
qed

subsection \<open>Commit and sync: nothing to commit\<close>

text \<open>
  Claim C3. When the status lists no modified and no untracked file, the
  commit-and-sync handler asks for the branch and the status, prints the warning and
  returns: it makes no add, commit, pull or push call, whatever the staged files are.
\<close>

theorem commitAndPush_no_changes:
  assumes "git_branch env w = (Inr b, w1)"
    and "git_status env w1 = (Inr st, w2)"
    and "modified st = []" and "not_added st = []"
  shows "commitAndPush env w =
           (Returned (), w2, [Call Branch Ok, Call Status Ok, Log NoChangesLine])"
  using assms
  by (simp add: commitAndPush_def getCurrentBranch_def io_defs)

theorem commitAndPush_no_changes_witness:
  "staged \<lparr>status_current = ''main'', tracking = None, ahead = 0, behind = 0, modified = [],
           not_added = [], staged = [''b.txt'']\<rparr> = [''b.txt'']
   \<and> commitAndPush clean_env 0 =
       (Returned (), 2, [Call Branch Ok, Call Status Ok, Log NoChangesLine])"
proof -
  have branch: "git_branch clean_env 0 =
      (Inr \<lparr>current = ''main'', all_names = [''main'', ''dev'']\<rparr>, 1)"
    by (simp add: clean_env_def sample_env_def)
  have status: "git_status clean_env 1 =
      (Inr \<lparr>status_current = ''main'', tracking = None, ahead = 0, behind = 0, modified = [],
            not_added = [], staged = [''b.txt'']\<rparr>, 2)"
    by (simp add: clean_env_def sample_env_def)
  from commitAndPush_no_changes [OF branch status] show ?thesis by simp
qed

subsection \<open>The branch query before the menu\<close>

text \<open>
  Claim C4, as the code has it. When the branch query at the start of a turn of the
  loop fails, the menu is not shown in that turn: the error goes to the \<^verbatim>\<open>catch\<close> of
  the loop, which ends the process with code 1 if the error has \<^verbatim>\<open>isTtyError\<close>, and
  otherwise reports the error, shows the pause prompt and lets the loop go on.
\<close>

theorem branch_query_failure_skips_menu:
  assumes "git_branch env w = (Inl e, w1)"
  shows "main_iteration env w =
     (if isTtyError e
      then (Exited 1, w1, [Call Branch (Failed e), Log NonInteractiveLine])
      else (Returned (), snd (prompt_input env pause_question w1),
            Call Branch (Failed e) # error_events e OpExecute @
            [Ask pause_question
               (case fst (prompt_input env pause_question w1) of
                  Inl e' \<Rightarrow> Failed e' | Inr v \<Rightarrow> Ok)]))"
  using assms
  by (cases "prompt_input env pause_question w1")
     (auto simp: main_iteration_def showMainMenu_def getCurrentBranch_def waitForContinue_def
        pause_question_def handleError_eq io_defs split: sum.splits)

lemma failing_branch_run:
  "main_iteration failing_branch_env 0 =
     (Returned (), 2,
      [Call Branch (Failed sample_error), Log (ErrorLine OpExecute ''rejected''),
       Log (DetailLine ''fatal: no access''), Ask pause_question Ok])"
  by (simp add: main_iteration_def showMainMenu_def getCurrentBranch_def waitForContinue_def
      handleError_def pause_question_def io_defs failing_branch_env_def sample_env_def
      sample_error_def)

text \<open>
  A turn in which the branch query fails: the menu prompt is not in the trace.
\<close>

theorem branch_query_failure_counterexample:
  "git_branch failing_branch_env 0 = (Inl sample_error, 1)
   \<and> main_iteration failing_branch_env 0 =
      (Returned (), 2,
       [Call Branch (Failed sample_error), Log (ErrorLine OpExecute ''rejected''),
        Log (DetailLine ''fatal: no access''), Ask pause_question Ok])
   \<and> Ask main_menu Ok \<notin> set (snd (snd (main_iteration failing_branch_env 0)))"
  by (simp add: failing_branch_run)
     (simp add: failing_branch_env_def sample_env_def pause_question_def main_menu_def)

theorem branch_query_failure_skips_menu_witness:
  "git_branch failing_branch_env 0 = (Inl sample_error, 1)
   \<and> \<not> isTtyError sample_error
   \<and> main_iteration failing_branch_env 0 =
      (Returned (), 2,
       Call Branch (Failed sample_error) # error_events sample_error OpExecute @
       [Ask pause_question Ok])"
proof -
  have failed: "git_branch failing_branch_env 0 = (Inl sample_error, 1)"
    by (simp add: failing_branch_env_def sample_env_def)
  have pause: "prompt_input failing_branch_env pause_question 1 = (Inr ''fix'', 2)"
    by (simp add: failing_branch_env_def sample_env_def)
  from branch_query_failure_skips_menu [OF failed] failed pause show ?thesis
    by (simp add: sample_error_def)
qed

subsection \<open>Handlers and the failures of the version-control binding\<close>

lemma manageRemotes_listing_failed:
  assumes "git_getRemotes env w = (Inl e, w1)"
  shows "manageRemotes env w = (Threw e, w1, [Call GetRemotes (Failed e)])"
  using assms by (simp add: manageRemotes_def getRemotes_def io_defs)

lemma manageRemotes_menu:
  assumes "git_getRemotes env w = (Inr rs, w1)"
  shows "manageRemotes env w =
     (case prompt_remote_action env remote_menu w1 of
        (Inl e, w2) \<Rightarrow> (Threw e, w2, Call GetRemotes Ok # remote_lines rs @ [Ask remote_menu (Failed e)])
      | (Inr ra, w2) \<Rightarrow>
          (case (case ra of ADD \<Rightarrow> addRemote env | UPDATE \<Rightarrow> updateRemote env
                          | DELETE \<Rightarrow> deleteRemote env | BACK \<Rightarrow> io_return ()) w2 of
             (r, w3, t) \<Rightarrow> (r, w3, Call GetRemotes Ok # remote_lines rs @ Ask remote_menu Ok # t)))"
  using assms
  by (simp add: manageRemotes_def getRemotes_def io_defs log_each_eq remote_lines_def
      remote_menu_def comp_def split: prod.splits sum.splits)

lemma sub_handlers_return:
  "fst (addRemote env w) = Returned ()"
  "fst (updateRemote env w) = Returned ()"
  "fst (deleteRemote env w) = Returned ()"
proof -
  show "fst (addRemote env w) = Returned ()"
    using addRemote_local [of env w] by (cases "addRemote env w") simp
  show "fst (updateRemote env w) = Returned ()"
    using updateRemote_local [of env w] by (cases "updateRemote env w") simp
  show "fst (deleteRemote env w) = Returned ()"
    using deleteRemote_local [of env w] by (cases "deleteRemote env w") simp
qed

text \<open>
  Claim C5, as the code has it. Every action handler but the one for remote
  management returns normally, whatever fails in it, and no handler ends the process.
  In the trace of a handler that has returned, every failed call of the version-control
  binding is reported under one of the handlers' operation names (message, and detail
  text when there is some). The handler for remote management has no \<^verbatim>\<open>try\<close> of its
  own. When the listing of the remotes fails, it throws that error, and the failed call
  is its whole trace: nothing is printed. When the listing succeeds and the menu prompt
  fails, it throws that error after the lines about the remotes. When both succeed it
  returns, since the handlers for adding, updating and deleting a remote catch their own
  failures. A handler throws in no other way.
\<close>

theorem handlers_catch_locally:
  "(\<forall>a r w' tr. executeAction env a w = (r, w', tr) \<and> a \<noteq> EXIT \<longrightarrow>
        (a \<noteq> REMOTE_MANAGE \<longrightarrow> r = Returned ())
      \<and> (r = Returned () \<longrightarrow>
           (\<forall>c e. Call c (Failed e) \<in> set tr \<longrightarrow>
              (\<exists>operation\<in>handler_ops. reported_as operation e tr)))
      \<and> (\<forall>e. r = Threw e \<longrightarrow>
           a = REMOTE_MANAGE \<and>
           (last tr = Call GetRemotes (Failed e) \<or> last tr = Ask remote_menu (Failed e)))
      \<and> (\<forall>c. r \<noteq> Exited c))
   \<and> (\<forall>e w1. git_getRemotes env w = (Inl e, w1) \<longrightarrow>
        manageRemotes env w = (Threw e, w1, [Call GetRemotes (Failed e)]))
   \<and> (\<forall>rs w1 e w2.
        git_getRemotes env w = (Inr rs, w1) \<and>
        prompt_remote_action env remote_menu w1 = (Inl e, w2) \<longrightarrow>
        manageRemotes env w =
          (Threw e, w2, Call GetRemotes Ok # remote_lines rs @ [Ask remote_menu (Failed e)]))
   \<and> (\<forall>rs w1 ra w2.
        git_getRemotes env w = (Inr rs, w1) \<and>
        prompt_remote_action env remote_menu w1 = (Inr ra, w2) \<longrightarrow>
        fst (manageRemotes env w) = Returned ())"
proof -
  have handlers: "(a \<noteq> REMOTE_MANAGE \<longrightarrow> r = Returned ())
      \<and> (r = Returned () \<longrightarrow>
           (\<forall>c e. Call c (Failed e) \<in> set tr \<longrightarrow>
              (\<exists>operation\<in>handler_ops. reported_as operation e tr)))
      \<and> (\<forall>e. r = Threw e \<longrightarrow>
           a = REMOTE_MANAGE \<and>
           (last tr = Call GetRemotes (Failed e) \<or> last tr = Ask remote_menu (Failed e)))
      \<and> (\<forall>c. r \<noteq> Exited c)"
    if "executeAction env a w = (r, w', tr) \<and> a \<noteq> EXIT" for a r w' tr
    using executeAction_cases [of env a w r w' tr] that
    unfolding local_trace_def
    by auto
  have listing: "manageRemotes env w = (Threw e, w1, [Call GetRemotes (Failed e)])"
    if "git_getRemotes env w = (Inl e, w1)" for e w1
    using that by (simp add: manageRemotes_listing_failed)
  have menu: "manageRemotes env w =
          (Threw e, w2, Call GetRemotes Ok # remote_lines rs @ [Ask remote_menu (Failed e)])"
    if "git_getRemotes env w = (Inr rs, w1) \<and>
        prompt_remote_action env remote_menu w1 = (Inl e, w2)" for rs w1 e w2
    using that by (simp add: manageRemotes_menu)
  have sub: "fst (manageRemotes env w) = Returned ()"
    if "git_getRemotes env w = (Inr rs, w1) \<and>
        prompt_remote_action env remote_menu w1 = (Inr ra, w2)" for rs w1 ra w2
    using that sub_handlers_return [of env w2]
    by (cases ra) (auto simp add: manageRemotes_menu io_return_def split: prod.splits)
  show ?thesis
  proof (intro conjI)
    show "\<forall>a r w' tr. executeAction env a w = (r, w', tr) \<and> a \<noteq> EXIT \<longrightarrow>
        (a \<noteq> REMOTE_MANAGE \<longrightarrow> r = Returned ())
      \<and> (r = Returned () \<longrightarrow>
           (\<forall>c e. Call c (Failed e) \<in> set tr \<longrightarrow>
              (\<exists>operation\<in>handler_ops. reported_as operation e tr)))
      \<and> (\<forall>e. r = Threw e \<longrightarrow>
           a = REMOTE_MANAGE \<and>
           (last tr = Call GetRemotes (Failed e) \<or> last tr = Ask remote_menu (Failed e)))
      \<and> (\<forall>c. r \<noteq> Exited c)"
      using handlers by blast
    show "\<forall>e w1. git_getRemotes env w = (Inl e, w1) \<longrightarrow>
        manageRemotes env w = (Threw e, w1, [Call GetRemotes (Failed e)])"
      using listing by blast
    show "\<forall>rs w1 e w2.
        git_getRemotes env w = (Inr rs, w1) \<and>
        prompt_remote_action env remote_menu w1 = (Inl e, w2) \<longrightarrow>
        manageRemotes env w =
          (Threw e, w2, Call GetRemotes Ok # remote_lines rs @ [Ask remote_menu (Failed e)])"
      using menu by blast
    show "\<forall>rs w1 ra w2.
        git_getRemotes env w = (Inr rs, w1) \<and>
        prompt_remote_action env remote_menu w1 = (Inr ra, w2) \<longrightarrow>
        fst (manageRemotes env w) = Returned ()"
      using sub by blast
  qed
qed

lemma failing_remotes_run:
  "executeAction failing_remotes_env REMOTE_MANAGE 0 =
     (Threw sample_error, 1, [Call GetRemotes (Failed sample_error)])"
  by (simp add: manageRemotes_def getRemotes_def io_defs failing_remotes_env_def sample_env_def)

text \<open>
  The remote-management handler when the listing of the remotes fails: the error is
  thrown out of the handler and nothing is printed.
\<close>

theorem handlers_catch_locally_counterexample:
  "executeAction failing_remotes_env REMOTE_MANAGE 0 =
     (Threw sample_error, 1, [Call GetRemotes (Failed sample_error)])"
  by (rule failing_remotes_run)

lemma failing_pull_action:
  "executeAction failing_pull_env PULL 0 =
     (Returned (), 1,
      [Log PullingLine, Call Pull (Failed sample_error), Log (ErrorLine OpPull ''rejected''),
       Log (DetailLine ''fatal: no access'')])"
  by (simp add: pullCode_def handleError_def io_defs failing_pull_env_def sample_env_def
      sample_error_def)

theorem handlers_catch_locally_witness:
  "PULL \<noteq> EXIT \<and> PULL \<noteq> REMOTE_MANAGE
   \<and> fst (executeAction failing_pull_env PULL 0) = Returned ()
   \<and> Call Pull (Failed sample_error) \<in> set (snd (snd (executeAction failing_pull_env PULL 0)))
   \<and> (\<exists>operation\<in>handler_ops.
         reported_as operation sample_error (snd (snd (executeAction failing_pull_env PULL 0))))
   \<and> git_getRemotes failing_remotes_env 0 = (Inl sample_error, 1)
   \<and> manageRemotes failing_remotes_env 0 =
       (Threw sample_error, 1, [Call GetRemotes (Failed sample_error)])
   \<and> git_getRemotes failing_remote_menu_env 0 =
       (Inr [\<lparr>name = ''upstream'', refs_fetch = ''u.git''\<rparr>,
             \<lparr>name = ''origin'', refs_fetch = ''o.git''\<rparr>], 1)
   \<and> prompt_remote_action failing_remote_menu_env remote_menu 1 = (Inl interrupt_error, 2)
   \<and> manageRemotes failing_remote_menu_env 0 =
       (Threw interrupt_error, 2,
        [Call GetRemotes Ok, Log RemotesHeaderLine, Log (RemoteEntryLine ''upstream'' ''u.git''),
         Log (RemoteEntryLine ''origin'' ''o.git''), Ask remote_menu (Failed interrupt_error)])
   \<and> prompt_remote_action adding_remote_env remote_menu 1 = (Inr ADD, 2)
   \<and> fst (manageRemotes adding_remote_env 0) = Returned ()"
proof -
  have "PULL \<noteq> EXIT" by simp
  with handlers_catch_locally [of failing_pull_env 0, THEN conjunct1, rule_format,
      of PULL "Returned ()" 1
        "[Log PullingLine, Call Pull (Failed sample_error), Log (ErrorLine OpPull ''rejected''),
          Log (DetailLine ''fatal: no access'')]"]
    failing_pull_action
  have caught: "\<exists>operation\<in>handler_ops.
         reported_as operation sample_error (snd (snd (executeAction failing_pull_env PULL 0)))"
    by simp
  have listing: "git_getRemotes failing_remotes_env 0 = (Inl sample_error, 1)"
    by (simp add: failing_remotes_env_def sample_env_def)
  from handlers_catch_locally [of failing_remotes_env 0, THEN conjunct2, THEN conjunct1, rule_format,
      of sample_error 1] listing
  have thrown: "manageRemotes failing_remotes_env 0 =
       (Threw sample_error, 1, [Call GetRemotes (Failed sample_error)])"
    by simp
  have listed: "git_getRemotes failing_remote_menu_env 0 =
       (Inr [\<lparr>name = ''upstream'', refs_fetch = ''u.git''\<rparr>,
             \<lparr>name = ''origin'', refs_fetch = ''o.git''\<rparr>], 1)"
    by (simp add: failing_remote_menu_env_def sample_env_def)
  have menu: "prompt_remote_action failing_remote_menu_env remote_menu 1 = (Inl interrupt_error, 2)"
    by (simp add: failing_remote_menu_env_def sample_env_def)
  from handlers_catch_locally [of failing_remote_menu_env 0, THEN conjunct2, THEN conjunct2, THEN conjunct1,
      rule_format, of _ 1 interrupt_error 2] listed menu
  have menu_thrown: "manageRemotes failing_remote_menu_env 0 =
       (Threw interrupt_error, 2,
        [Call GetRemotes Ok, Log RemotesHeaderLine, Log (RemoteEntryLine ''upstream'' ''u.git''),
         Log (RemoteEntryLine ''origin'' ''o.git''), Ask remote_menu (Failed interrupt_error)])"
    by (simp add: remote_lines_def)
  have listed': "git_getRemotes adding_remote_env 0 =
       (Inr [\<lparr>name = ''upstream'', refs_fetch = ''u.git''\<rparr>,
             \<lparr>name = ''origin'', refs_fetch = ''o.git''\<rparr>], 1)"
    by (simp add: adding_remote_env_def sample_env_def)
  have menu': "prompt_remote_action adding_remote_env remote_menu 1 = (Inr ADD, 2)"
    by (simp add: adding_remote_env_def sample_env_def)
  from handlers_catch_locally [of adding_remote_env 0, THEN conjunct2, THEN conjunct2, THEN conjunct2,
      rule_format, of _ 1 ADD 2] listed' menu'
  have sub: "fst (manageRemotes adding_remote_env 0) = Returned ()"
    by simp
  have returned: "fst (executeAction failing_pull_env PULL 0) = Returned ()"
    "Call Pull (Failed sample_error) \<in> set (snd (snd (executeAction failing_pull_env PULL 0)))"
    unfolding failing_pull_action by simp_all
  from returned caught listing thrown listed menu menu_thrown menu' sub show ?thesis
    by simp
qed

subsection \<open>The non-interactive condition\<close>

text \<open>
  The ways in which a turn of the loop goes on after the menu: the menu, the handler
  or the pause prompt throws, the pause prompt is answered, or the exit action is chosen.
\<close>

lemma turn_menu_threw:
  assumes "showMainMenu env w = (Threw e, w1, t1)"
  shows "main_iteration env w =
     (if isTtyError e then (Exited 1, w1, t1 @ [Log NonInteractiveLine])
      else (Returned (), snd (prompt_input env pause_question w1),
            t1 @ error_events e OpExecute @
            [Ask pause_question
               (case fst (prompt_input env pause_question w1) of
                  Inl e' \<Rightarrow> Failed e' | Inr v \<Rightarrow> Ok)]))"
  using assms
  by (cases "prompt_input env pause_question w1")
     (auto simp: main_iteration_def waitForContinue_def
        pause_question_def handleError_eq io_defs split: sum.splits)

lemma turn_handler_threw:
  assumes "showMainMenu env w = (Returned a, w0, t0)"
    and "executeAction env a w0 = (Threw e, w1, t)"
  shows "main_iteration env w =
     (if isTtyError e then (Exited 1, w1, (t0 @ t) @ [Log NonInteractiveLine])
      else (Returned (), snd (prompt_input env pause_question w1),
            (t0 @ t) @ error_events e OpExecute @
            [Ask pause_question
               (case fst (prompt_input env pause_question w1) of
                  Inl e' \<Rightarrow> Failed e' | Inr v \<Rightarrow> Ok)]))"
  using assms
  by (cases "prompt_input env pause_question w1")
     (auto simp: main_iteration_def waitForContinue_def
        pause_question_def handleError_eq io_defs split: sum.splits)

lemma turn_pause_threw:
  assumes "showMainMenu env w = (Returned a, w0, t0)" and "a \<noteq> EXIT"
    and "executeAction env a w0 = (Returned (), w2, t)"
    and "prompt_input env pause_question w2 = (Inl e, w1)"
  shows "main_iteration env w =
     (if isTtyError e
      then (Exited 1, w1, (t0 @ t @ [Ask pause_question (Failed e)]) @ [Log NonInteractiveLine])
      else (Returned (), snd (prompt_input env pause_question w1),
            (t0 @ t @ [Ask pause_question (Failed e)]) @ error_events e OpExecute @
            [Ask pause_question
               (case fst (prompt_input env pause_question w1) of
                  Inl e' \<Rightarrow> Failed e' | Inr v \<Rightarrow> Ok)]))"
  using assms
  by (cases "prompt_input env pause_question w1")
     (auto simp: main_iteration_def waitForContinue_def
        pause_question_def handleError_eq io_defs split: sum.splits)

lemma turn_returned:
  assumes "showMainMenu env w = (Returned a, w1, t1)" and "a \<noteq> EXIT"
    and "executeAction env a w1 = (Returned (), w2, t2)"
    and "prompt_input env pause_question w2 = (Inr v, w3)"
  shows "main_iteration env w =
     (Returned (), w3, t1 @ t2 @ [Ask pause_question Ok, Log BlankLine])"
  using assms
  by (simp add: main_iteration_def waitForContinue_def pause_question_def io_defs)

lemma turn_exit:
  assumes "showMainMenu env w = (Returned EXIT, w1, t1)"
  shows "main_iteration env w = (Exited 0, w1, t1 @ [Log FarewellLine])"
  using assms
  by (simp add: main_iteration_def io_defs)

lemma main_iteration_exited:
  assumes run: "main_iteration env w = (Exited c, w', tr)"
  shows "(c = 0 \<and> (\<exists>t1. showMainMenu env w = (Returned EXIT, w', t1) \<and> tr = t1 @ [Log FarewellLine]))
       \<or> (c = 1 \<and> (\<exists>e t1. isTtyError e \<and> tr = t1 @ [Log NonInteractiveLine] \<and> t1 \<noteq> [] \<and>
              (last t1 = Call Branch (Failed e) \<or> last t1 = Ask main_menu (Failed e)
               \<or> last t1 = Call GetRemotes (Failed e) \<or> last t1 = Ask remote_menu (Failed e)
               \<or> last t1 = Ask pause_question (Failed e))))"
proof -
  obtain r0 w0 t0 where menu: "showMainMenu env w = (r0, w0, t0)"
    by (cases "showMainMenu env w") auto
  show ?thesis
  proof (cases r0)
    case (Threw e)
    from menu Threw have last: "t0 \<noteq> [] \<and>
        (last t0 = Call Branch (Failed e) \<or> last t0 = Ask main_menu (Failed e))"
      by (auto elim!: showMainMenuE)
    from turn_menu_threw [of env w e w0 t0] menu Threw run
    have "isTtyError e \<and> c = 1 \<and> tr = t0 @ [Log NonInteractiveLine]"
      by (auto split: if_splits)
    with last show ?thesis by blast
  next
    case (Exited c0)
    with menu show ?thesis by (auto elim!: showMainMenuE)
  next
    case (Returned a)
    show ?thesis
    proof (cases "a = EXIT")
      case True
      with turn_exit [of env w w0 t0] menu Returned run show ?thesis by simp
    next
      case False
      obtain r2 w2 t2 where handler: "executeAction env a w0 = (r2, w2, t2)"
        by (cases "executeAction env a w0") auto
      from executeAction_cases [OF handler] False
      consider (ret) "r2 = Returned ()"
        | (thr) e where "r2 = Threw e" "t2 \<noteq> []"
            "last t2 = Call GetRemotes (Failed e) \<or> last t2 = Ask remote_menu (Failed e)"
        by auto
      then show ?thesis
      proof cases
        case ret
        obtain p w3 where pause: "prompt_input env pause_question w2 = (p, w3)"
          by (cases "prompt_input env pause_question w2") auto
        show ?thesis
        proof (cases p)
          case (Inl e)
          from turn_pause_threw [of env w a w0 t0 w2 t2 e w3] menu Returned False handler ret
            pause Inl run
          have "isTtyError e \<and> c = 1 \<and>
              tr = (t0 @ t2 @ [Ask pause_question (Failed e)]) @ [Log NonInteractiveLine]"
            by (auto split: if_splits)
          then show ?thesis by auto
        next
          case (Inr v)
          from turn_returned [of env w a w0 t0 w2 t2 v w3] menu Returned False handler ret
            pause Inr run
          show ?thesis by simp
        qed
      next
        case thr
        from turn_handler_threw [of env w a w0 t0 e w2 t2] menu Returned handler thr(1) run
        have "isTtyError e \<and> c = 1 \<and> tr = (t0 @ t2) @ [Log NonInteractiveLine]"
          by (auto split: if_splits)
        moreover from thr(2) have "last (t0 @ t2) = last t2" "t0 @ t2 \<noteq> []"
          by simp_all
        ultimately show ?thesis using thr(3) by metis
      qed
    qed
  qed
qed

text \<open>
  Claim C6, as the code has it. A turn of the loop returns, or ends the process with
  code 0 or 1; no error leaves it. An error reaches the \<^verbatim>\<open>catch\<close> of the loop in three
  ways: the menu throws it (the branch query or the menu prompt), the handler throws it
  (remote management only), or the pause prompt throws it after a handler that has
  returned. If that error has \<^verbatim>\<open>isTtyError\<close>, the process ends with code 1 at once: the
  line about the non-interactive environment follows the failed event directly. If it
  has not, the error is reported under the operation name of the loop, the pause prompt
  is shown and the turn returns; an error of that second pause prompt, with
  \<^verbatim>\<open>isTtyError\<close> or without, is dropped: nothing is printed for it and the process goes
  on. A prompt that fails inside a handler with a \<^verbatim>\<open>try\<close> of its own is reported by
  that handler as a recoverable error, with \<^verbatim>\<open>isTtyError\<close> or without; such a handler
  always returns, and the turn returns when the pause prompt is then answered. So the
  process ends with code 1 only directly after a failed branch query, menu prompt,
  listing of the remotes, remote menu prompt or pause prompt whose error has
  \<^verbatim>\<open>isTtyError\<close>.
\<close>

theorem tty_error_handling:
  "(\<forall>r w' tr. main_iteration env w = (r, w', tr) \<longrightarrow>
        (r = Returned () \<or> r = Exited 0 \<or> r = Exited 1)
      \<and> (\<forall>e. isTtyError e \<and>
              (Ask main_menu (Failed e) \<in> set tr \<or> Ask remote_menu (Failed e) \<in> set tr) \<longrightarrow>
            r = Exited 1 \<and> last tr = Log NonInteractiveLine
            \<and> failure (last (butlast tr)) = Some e)
      \<and> (\<forall>q e. Ask q (Failed e) \<in> set tr \<and> q \<noteq> main_menu \<and> q \<noteq> remote_menu
              \<and> q \<noteq> pause_question \<longrightarrow>
            (\<exists>operation\<in>handler_ops. reported_as operation e tr))
      \<and> (r = Exited 1 \<longrightarrow>
            last tr = Log NonInteractiveLine
            \<and> (\<exists>e. isTtyError e \<and>
                  (last (butlast tr) = Call Branch (Failed e)
                   \<or> last (butlast tr) = Ask main_menu (Failed e)
                   \<or> last (butlast tr) = Call GetRemotes (Failed e)
                   \<or> last (butlast tr) = Ask remote_menu (Failed e)
                   \<or> last (butlast tr) = Ask pause_question (Failed e)))))
   \<and> (\<forall>e w1 t1.
        (showMainMenu env w = (Threw e, w1, t1)
         \<or> (\<exists>a w0 t0 t. showMainMenu env w = (Returned a, w0, t0) \<and>
               executeAction env a w0 = (Threw e, w1, t) \<and> t1 = t0 @ t)
         \<or> (\<exists>a w0 t0 w2 t. showMainMenu env w = (Returned a, w0, t0) \<and> a \<noteq> EXIT \<and>
               executeAction env a w0 = (Returned (), w2, t) \<and>
               prompt_input env pause_question w2 = (Inl e, w1) \<and>
               t1 = t0 @ t @ [Ask pause_question (Failed e)])) \<longrightarrow>
        main_iteration env w =
          (if isTtyError e then (Exited 1, w1, t1 @ [Log NonInteractiveLine])
           else (Returned (), snd (prompt_input env pause_question w1),
                 t1 @ error_events e OpExecute @
                 [Ask pause_question
                    (case fst (prompt_input env pause_question w1) of
                       Inl e' \<Rightarrow> Failed e' | Inr v \<Rightarrow> Ok)])))
   \<and> (\<forall>a w1 t1 w2 t2 v w3.
        showMainMenu env w = (Returned a, w1, t1) \<and> a \<noteq> EXIT \<and>
        executeAction env a w1 = (Returned (), w2, t2) \<and>
        prompt_input env pause_question w2 = (Inr v, w3) \<longrightarrow>
        main_iteration env w =
          (Returned (), w3, t1 @ t2 @ [Ask pause_question Ok, Log BlankLine]))
   \<and> (\<forall>a w1. a \<noteq> EXIT \<and> a \<noteq> REMOTE_MANAGE \<longrightarrow> fst (executeAction env a w1) = Returned ())"
proof -
  have main: "(r = Returned () \<or> r = Exited 0 \<or> r = Exited 1)
      \<and> (\<forall>e. isTtyError e \<and>
              (Ask main_menu (Failed e) \<in> set tr \<or> Ask remote_menu (Failed e) \<in> set tr) \<longrightarrow>
            r = Exited 1 \<and> last tr = Log NonInteractiveLine
            \<and> failure (last (butlast tr)) = Some e)
      \<and> (\<forall>q e. Ask q (Failed e) \<in> set tr \<and> q \<noteq> main_menu \<and> q \<noteq> remote_menu
              \<and> q \<noteq> pause_question \<longrightarrow>
            (\<exists>operation\<in>handler_ops. reported_as operation e tr))"
    if "main_iteration env w = (r, w', tr)" for r w' tr
  proof -
    define good where "good = (\<lambda>r tr. (r = Returned () \<or> r = Exited 0 \<or> r = Exited 1)
       \<and> (\<forall>e. isTtyError e \<and>
               (Ask main_menu (Failed e) \<in> set tr \<or> Ask remote_menu (Failed e) \<in> set tr) \<longrightarrow>
             r = Exited 1 \<and> last tr = Log NonInteractiveLine
             \<and> failure (last (butlast tr)) = Some e)
       \<and> (\<forall>q e. Ask q (Failed e) \<in> set tr \<and> q \<noteq> main_menu \<and> q \<noteq> remote_menu
               \<and> q \<noteq> pause_question \<longrightarrow>
             (\<exists>operation\<in>handler_ops. reported_as operation e tr)))"
    from that have "good r tr"
      unfolding main_iteration_def
    proof (cases rule: io_catchE)
      case (thr e w1 t1 t2)
      from loop_try [OF thr(1)]
      have t1: "t1 \<noteq> []" "failure (last t1) = Some e" "local_trace handler_ops (butlast t1)"
        "\<And>q res. last t1 = Ask q res \<Longrightarrow> q = main_menu \<or> q = remote_menu \<or> q = pause_question"
        by auto
      from t1(1) have split: "t1 = butlast t1 @ [last t1]" by simp
      have failed: "e' = e" if "Ask q (Failed e') \<in> set t1" "q = main_menu \<or> q = remote_menu" for q e'
      proof -
        from in_set_snoc [OF that(1) t1(1)] that(2) local_trace_facts(2,3) [OF t1(3)]
        have "last t1 = Ask q (Failed e')" by auto
        with t1(2) show ?thesis by simp
      qed
      have local: "\<exists>operation\<in>handler_ops. reported_as operation e' (t1 @ t)"
        if "Ask q (Failed e') \<in> set t1" "q \<noteq> main_menu" "q \<noteq> remote_menu" "q \<noteq> pause_question"
        for q e' t
      proof -
        from in_set_snoc [OF that(1) t1(1)] t1(4) that(2,3,4)
        have "Ask q (Failed e') \<in> set (butlast t1)" by auto
        from local_trace_facts(4) [OF t1(3) this]
        obtain operation where "operation \<in> handler_ops" "reported_as operation e' (butlast t1)"
          by blast
        moreover have "set (butlast t1) \<subseteq> set (t1 @ t)"
          using split by (metis Un_upper1 set_append subset_trans)
        ultimately show ?thesis
          by (blast intro: reported_as_mono)
      qed
      from loop_catch [OF thr(2)] show ?thesis
      proof
        assume tty: "isTtyError e \<and> r = Exited 1 \<and> w' = w1 \<and> t2 = [Log NonInteractiveLine]"
        with thr(3) t1 failed local show ?thesis
          unfolding good_def by (auto simp: butlast_append)
      next
        assume rec: "\<not> isTtyError e \<and> r = Returned () \<and>
              (\<exists>res. t2 = error_events e OpExecute @ [Ask pause_question res])"
        with thr(3) t1 failed local show ?thesis
          unfolding good_def by (auto simp: menu_defs)
      qed
    next
      case (ret x)
      from loop_try [OF ret(1)] ret(2)
      have tr: "tr \<noteq> []" "last tr = Log BlankLine" "last (butlast tr) = Ask pause_question Ok"
        "local_trace handler_ops (butlast (butlast tr))" "butlast tr \<noteq> []"
        by auto
      have "tr = butlast (butlast tr) @ [Ask pause_question Ok, Log BlankLine]"
        using tr(1,2,3,5) by (metis append.assoc append_Cons append_Nil append_butlast_last_id)
      from settled [OF tr(4) _ this] ret(2) show ?thesis
        unfolding good_def by auto
    next
      case (ext c)
      from loop_try [OF ext(1)] ext(2)
      have tr: "tr \<noteq> []" "r = Exited 0" "last tr = Log FarewellLine"
        "local_trace handler_ops (butlast tr)"
        by auto
      have "tr = butlast tr @ [Log FarewellLine]"
        using tr(1,3) by (metis append_butlast_last_id)
      from settled [OF tr(4) _ this] tr(2) show ?thesis
        unfolding good_def by auto
    qed
    then show ?thesis by (simp add: good_def)
  qed
  have fatal: "r = Exited 1 \<longrightarrow>
            last tr = Log NonInteractiveLine
            \<and> (\<exists>e. isTtyError e \<and>
                  (last (butlast tr) = Call Branch (Failed e)
                   \<or> last (butlast tr) = Ask main_menu (Failed e)
                   \<or> last (butlast tr) = Call GetRemotes (Failed e)
                   \<or> last (butlast tr) = Ask remote_menu (Failed e)
                   \<or> last (butlast tr) = Ask pause_question (Failed e)))"
    if "main_iteration env w = (r, w', tr)" for r w' tr
  proof
    assume "r = Exited 1"
    with that have "main_iteration env w = (Exited 1, w', tr)" by simp
    from main_iteration_exited [OF this]
    obtain e t1 where "isTtyError e" "tr = t1 @ [Log NonInteractiveLine]" "t1 \<noteq> []"
      "last t1 = Call Branch (Failed e) \<or> last t1 = Ask main_menu (Failed e)
       \<or> last t1 = Call GetRemotes (Failed e) \<or> last t1 = Ask remote_menu (Failed e)
       \<or> last t1 = Ask pause_question (Failed e)"
      by auto
    then show "last tr = Log NonInteractiveLine
            \<and> (\<exists>e. isTtyError e \<and>
                  (last (butlast tr) = Call Branch (Failed e)
                   \<or> last (butlast tr) = Ask main_menu (Failed e)
                   \<or> last (butlast tr) = Call GetRemotes (Failed e)
                   \<or> last (butlast tr) = Ask remote_menu (Failed e)
                   \<or> last (butlast tr) = Ask pause_question (Failed e)))"
      by (auto simp: butlast_append)
  qed
  have caught: "main_iteration env w =
          (if isTtyError e then (Exited 1, w1, t1 @ [Log NonInteractiveLine])
           else (Returned (), snd (prompt_input env pause_question w1),
                 t1 @ error_events e OpExecute @
                 [Ask pause_question
                    (case fst (prompt_input env pause_question w1) of
                       Inl e' \<Rightarrow> Failed e' | Inr v \<Rightarrow> Ok)]))"
    if "showMainMenu env w = (Threw e, w1, t1)
         \<or> (\<exists>a w0 t0 t. showMainMenu env w = (Returned a, w0, t0) \<and>
               executeAction env a w0 = (Threw e, w1, t) \<and> t1 = t0 @ t)
         \<or> (\<exists>a w0 t0 w2 t. showMainMenu env w = (Returned a, w0, t0) \<and> a \<noteq> EXIT \<and>
               executeAction env a w0 = (Returned (), w2, t) \<and>
               prompt_input env pause_question w2 = (Inl e, w1) \<and>
               t1 = t0 @ t @ [Ask pause_question (Failed e)])" for e w1 t1
    using that
  proof (elim disjE exE conjE)
    assume "showMainMenu env w = (Threw e, w1, t1)"
    then show ?thesis by (rule turn_menu_threw)
  next
    fix a w0 t0 t
    assume "showMainMenu env w = (Returned a, w0, t0)"
      "executeAction env a w0 = (Threw e, w1, t)" "t1 = t0 @ t"
    then show ?thesis using turn_handler_threw [of env w a w0 t0 e w1 t] by simp
  next
    fix a w0 t0 w2 t
    assume "showMainMenu env w = (Returned a, w0, t0)" "a \<noteq> EXIT"
      "executeAction env a w0 = (Returned (), w2, t)"
      "prompt_input env pause_question w2 = (Inl e, w1)"
      "t1 = t0 @ t @ [Ask pause_question (Failed e)]"
    then show ?thesis using turn_pause_threw [of env w a w0 t0 w2 t e w1] by simp
  qed
  have returned: "main_iteration env w =
          (Returned (), w3, t1 @ t2 @ [Ask pause_question Ok, Log BlankLine])"
    if "showMainMenu env w = (Returned a, w1, t1) \<and> a \<noteq> EXIT \<and>
        executeAction env a w1 = (Returned (), w2, t2) \<and>
        prompt_input env pause_question w2 = (Inr v, w3)" for a w1 t1 w2 t2 v w3
    using that turn_returned [of env w a w1 t1 w2 t2 v w3] by simp
  have handler: "fst (executeAction env a w1) = Returned ()"
    if "a \<noteq> EXIT \<and> a \<noteq> REMOTE_MANAGE" for a w1
    using that executeAction_cases [of env a w1]
    by (cases "executeAction env a w1") auto
  show ?thesis
  proof (intro conjI)
    show "\<forall>r w' tr. main_iteration env w = (r, w', tr) \<longrightarrow>
        (r = Returned () \<or> r = Exited 0 \<or> r = Exited 1)
      \<and> (\<forall>e. isTtyError e \<and>
              (Ask main_menu (Failed e) \<in> set tr \<or> Ask remote_menu (Failed e) \<in> set tr) \<longrightarrow>
            r = Exited 1 \<and> last tr = Log NonInteractiveLine
            \<and> failure (last (butlast tr)) = Some e)
      \<and> (\<forall>q e. Ask q (Failed e) \<in> set tr \<and> q \<noteq> main_menu \<and> q \<noteq> remote_menu
              \<and> q \<noteq> pause_question \<longrightarrow>
            (\<exists>operation\<in>handler_ops. reported_as operation e tr))
      \<and> (r = Exited 1 \<longrightarrow>
            last tr = Log NonInteractiveLine
            \<and> (\<exists>e. isTtyError e \<and>
                  (last (butlast tr) = Call Branch (Failed e)
                   \<or> last (butlast tr) = Ask main_menu (Failed e)
                   \<or> last (butlast tr) = Call GetRemotes (Failed e)
                   \<or> last (butlast tr) = Ask remote_menu (Failed e)
                   \<or> last (butlast tr) = Ask pause_question (Failed e))))"
    proof (intro allI impI)
      fix r w' tr
      assume run: "main_iteration env w = (r, w', tr)"
      from main [OF run] fatal [OF run]
      show "(r = Returned () \<or> r = Exited 0 \<or> r = Exited 1)
      \<and> (\<forall>e. isTtyError e \<and>
              (Ask main_menu (Failed e) \<in> set tr \<or> Ask remote_menu (Failed e) \<in> set tr) \<longrightarrow>
            r = Exited 1 \<and> last tr = Log NonInteractiveLine
            \<and> failure (last (butlast tr)) = Some e)
      \<and> (\<forall>q e. Ask q (Failed e) \<in> set tr \<and> q \<noteq> main_menu \<and> q \<noteq> remote_menu
              \<and> q \<noteq> pause_question \<longrightarrow>
            (\<exists>operation\<in>handler_ops. reported_as operation e tr))
      \<and> (r = Exited 1 \<longrightarrow>
            last tr = Log NonInteractiveLine
            \<and> (\<exists>e. isTtyError e \<and>
                  (last (butlast tr) = Call Branch (Failed e)
                   \<or> last (butlast tr) = Ask main_menu (Failed e)
                   \<or> last (butlast tr) = Call GetRemotes (Failed e)
                   \<or> last (butlast tr) = Ask remote_menu (Failed e)
                   \<or> last (butlast tr) = Ask pause_question (Failed e))))"
        by (intro conjI) (erule conjunct1, erule conjunct2 [THEN conjunct1],
          erule conjunct2 [THEN conjunct2], assumption)
    qed
    show "\<forall>e w1 t1.
        (showMainMenu env w = (Threw e, w1, t1)
         \<or> (\<exists>a w0 t0 t. showMainMenu env w = (Returned a, w0, t0) \<and>
               executeAction env a w0 = (Threw e, w1, t) \<and> t1 = t0 @ t)
         \<or> (\<exists>a w0 t0 w2 t. showMainMenu env w = (Returned a, w0, t0) \<and> a \<noteq> EXIT \<and>
               executeAction env a w0 = (Returned (), w2, t) \<and>
               prompt_input env pause_question w2 = (Inl e, w1) \<and>
               t1 = t0 @ t @ [Ask pause_question (Failed e)])) \<longrightarrow>
        main_iteration env w =
          (if isTtyError e then (Exited 1, w1, t1 @ [Log NonInteractiveLine])
           else (Returned (), snd (prompt_input env pause_question w1),
                 t1 @ error_events e OpExecute @
                 [Ask pause_question
                    (case fst (prompt_input env pause_question w1) of
                       Inl e' \<Rightarrow> Failed e' | Inr v \<Rightarrow> Ok)]))"
      by (intro allI impI) (rule caught)
    show "\<forall>a w1 t1 w2 t2 v w3.
        showMainMenu env w = (Returned a, w1, t1) \<and> a \<noteq> EXIT \<and>
        executeAction env a w1 = (Returned (), w2, t2) \<and>
        prompt_input env pause_question w2 = (Inr v, w3) \<longrightarrow>
        main_iteration env w =
          (Returned (), w3, t1 @ t2 @ [Ask pause_question Ok, Log BlankLine])"
      by (intro allI impI) (rule returned)
    show "\<forall>a w1. a \<noteq> EXIT \<and> a \<noteq> REMOTE_MANAGE \<longrightarrow> fst (executeAction env a w1) = Returned ()"
      by (intro allI impI) (rule handler)
  qed
qed

lemma tty_commit_run:
  "main_iteration tty_commit_env 0 =
     (Returned (), 6,
      [Call Branch Ok, Log (MenuBranchLine ''main''), Ask main_menu Ok,
       Call Branch Ok, Call Status Ok,
       Ask (InputQ CommitMessageMsg None True) (Failed tty_error),
       Log (ErrorLine OpCommitCode ''no terminal''),
       Ask pause_question Ok, Log BlankLine])"
  by (simp add: main_iteration_def showMainMenu_def waitForContinue_def commitAndPush_def
      getCurrentBranch_def handleError_def pause_question_def main_menu_def io_defs
      tty_commit_env_def sample_env_def tty_error_def)

text \<open>
  The prompt for the commit message fails with \<^verbatim>\<open>isTtyError\<close>: the handler reports
  it as its own error, the pause prompt is answered and the turn returns.
\<close>

theorem tty_error_handling_counterexample:
  "isTtyError tty_error
   \<and> main_iteration tty_commit_env 0 =
     (Returned (), 6,
      [Call Branch Ok, Log (MenuBranchLine ''main''), Ask main_menu Ok,
       Call Branch Ok, Call Status Ok,
       Ask (InputQ CommitMessageMsg None True) (Failed tty_error),
       Log (ErrorLine OpCommitCode ''no terminal''),
       Ask pause_question Ok, Log BlankLine])"
  by (simp add: tty_commit_run) (simp add: tty_error_def)

lemma tty_menu_run:
  "main_iteration tty_menu_env 0 =
     (Exited 1, 2,
      [Call Branch Ok, Log (MenuBranchLine ''main''), Ask main_menu (Failed tty_error),
       Log NonInteractiveLine])"
  by (simp add: main_iteration_def showMainMenu_def getCurrentBranch_def main_menu_def io_defs
      tty_menu_env_def sample_env_def tty_error_def)

theorem tty_error_handling_witness:
  "isTtyError tty_error
   \<and> Ask main_menu (Failed tty_error) \<in> set (snd (snd (main_iteration tty_menu_env 0)))
   \<and> fst (main_iteration tty_menu_env 0) = Exited 1
   \<and> last (snd (snd (main_iteration tty_menu_env 0))) = Log NonInteractiveLine
   \<and> failure (last (butlast (snd (snd (main_iteration tty_menu_env 0))))) = Some tty_error
   \<and> Ask (InputQ CommitMessageMsg None True) (Failed tty_error)
        \<in> set (snd (snd (main_iteration tty_commit_env 0)))
   \<and> (\<exists>operation\<in>handler_ops.
         reported_as operation tty_error (snd (snd (main_iteration tty_commit_env 0))))
   \<and> fst (main_iteration tty_commit_env 0) = Returned ()
   \<and> showMainMenu swallowing_env 0 = (Threw sample_error, 1, [Call Branch (Failed sample_error)])
   \<and> prompt_input swallowing_env pause_question 1 = (Inl tty_error, 2)
   \<and> main_iteration swallowing_env 0 =
       (Returned (), 2,
        [Call Branch (Failed sample_error), Log (ErrorLine OpExecute ''rejected''),
         Log (DetailLine ''fatal: no access''), Ask pause_question (Failed tty_error)])"
proof -
  have tty: "isTtyError tty_error"
    by (simp add: tty_error_def)
  have asked: "Ask main_menu (Failed tty_error) \<in> set (snd (snd (main_iteration tty_menu_env 0)))"
    by (simp add: tty_menu_run)
  have fatal: "fst (main_iteration tty_menu_env 0) = Exited 1
     \<and> last (snd (snd (main_iteration tty_menu_env 0))) = Log NonInteractiveLine
     \<and> failure (last (butlast (snd (snd (main_iteration tty_menu_env 0))))) = Some tty_error"
    using tty_error_handling [of tty_menu_env 0, THEN conjunct1, rule_format, OF tty_menu_run] tty asked
    unfolding tty_menu_run fst_conv snd_conv by blast
  have inside: "Ask (InputQ CommitMessageMsg None True) (Failed tty_error)
        \<in> set (snd (snd (main_iteration tty_commit_env 0)))"
    by (simp add: tty_commit_run)
  have other: "InputQ CommitMessageMsg None True \<noteq> main_menu"
    "InputQ CommitMessageMsg None True \<noteq> remote_menu"
    "InputQ CommitMessageMsg None True \<noteq> pause_question"
    by (simp_all add: main_menu_def remote_menu_def pause_question_def)
  have local: "\<exists>operation\<in>handler_ops.
         reported_as operation tty_error (snd (snd (main_iteration tty_commit_env 0)))"
    using tty_error_handling [of tty_commit_env 0, THEN conjunct1, rule_format, OF tty_commit_run] inside other
    unfolding tty_commit_run fst_conv snd_conv by blast
  have goes_on: "fst (main_iteration tty_commit_env 0) = Returned ()"
    by (simp add: tty_commit_run)
  have menu: "showMainMenu swallowing_env 0 =
      (Threw sample_error, 1, [Call Branch (Failed sample_error)])"
    by (simp add: showMainMenu_def getCurrentBranch_def io_defs swallowing_env_def sample_env_def)
  have pause: "prompt_input swallowing_env pause_question 1 = (Inl tty_error, 2)"
    by (simp add: swallowing_env_def sample_env_def)
  from tty_error_handling [of swallowing_env 0, THEN conjunct2, THEN conjunct1, rule_format,
      of sample_error 1 "[Call Branch (Failed sample_error)]"] menu pause
  have swallowed: "main_iteration swallowing_env 0 =
       (Returned (), 2,
        [Call Branch (Failed sample_error), Log (ErrorLine OpExecute ''rejected''),
         Log (DetailLine ''fatal: no access''), Ask pause_question (Failed tty_error)])"
    by (simp add: sample_error_def error_events.simps)
  from tty asked fatal inside local goes_on menu pause swallowed show ?thesis
    by blast
qed

subsection \<open>The pause prompt\<close>

lemma manage_threw_pauses:
  assumes "tr \<noteq> []" "local_trace handler_ops (butlast tr)"
    "last tr = Call GetRemotes (Failed e) \<or> last tr = Ask remote_menu (Failed e)"
  shows "pauses tr = 0"
  using assms pauses_butlast [of tr] local_trace_pauses [of handler_ops "butlast tr"]
  by (auto simp: menu_defs)


lemma interrupted_pause_run:
  "main_iteration interrupted_pause_env 0 =
     (Returned (), 5,
      [Call Branch Ok, Log (MenuBranchLine ''main''), Ask main_menu Ok,
       Log PullingLine, Call Pull Ok, Log PullDoneLine, Log UpToDateLine,
       Ask pause_question (Failed interrupt_error),
       Log (ErrorLine OpExecute ''prompt closed''),
       Ask pause_question Ok])"
  by (simp add: main_iteration_def showMainMenu_def waitForContinue_def pullCode_def
      getCurrentBranch_def handleError_def pause_question_def main_menu_def io_defs
      interrupted_pause_env_def sample_env_def interrupt_error_def)



subsection \<open>Merge\<close>

text \<open>
  Claim C8. In the merge handler, with the current branch and the local branches
  known: every list of choices that the handler offers is the list of the local
  branches without the current one; when that list is empty the handler prints a
  notice and returns without a prompt; and when the confirmation is declined the
  handler prints that the merge is cancelled and returns without a merge call.
\<close>

theorem mergeBranch_choices:
  assumes "git_branch env w = (Inr b, w1)" and "git_branchLocal env w1 = (Inr bl, w2)"
  shows "(\<forall>m choices d res. Ask (ListQ m choices d) res \<in> set (snd (snd (mergeBranch env w))) \<longrightarrow>
            choices = filter (\<lambda>x. x \<noteq> current b) (all_names bl) \<and> current b \<notin> set choices)
     \<and> (filter (\<lambda>x. x \<noteq> current b) (all_names bl) = [] \<longrightarrow>
          mergeBranch env w =
            (Returned (), w2, [Call Branch Ok, Call BranchLocal Ok, Log NoOtherBranchLine]))
     \<and> (\<forall>source w3 w4.
          filter (\<lambda>x. x \<noteq> current b) (all_names bl) \<noteq> [] \<and>
          prompt_list env
            (ListQ (MergeSourceMsg (current b)) (filter (\<lambda>x. x \<noteq> current b) (all_names bl)) None)
            w2 = (Inr source, w3) \<and>
          prompt_confirm env (ConfirmQ (MergeConfirmMsg source (current b)) False) w3
            = (Inr False, w4) \<longrightarrow>
          mergeBranch env w =
            (Returned (), w4,
             [Call Branch Ok, Call BranchLocal Ok,
              Ask (ListQ (MergeSourceMsg (current b))
                     (filter (\<lambda>x. x \<noteq> current b) (all_names bl)) None) Ok,
              Ask (ConfirmQ (MergeConfirmMsg source (current b)) False) Ok,
              Log MergeCancelledLine]))"
proof -
  have choices: "choices = filter (\<lambda>x. x \<noteq> current b) (all_names bl) \<and> current b \<notin> set choices"
    if "Ask (ListQ m choices d) res \<in> set (snd (snd (mergeBranch env w)))" for m choices d res
  proof -
    obtain r w' tr where run: "mergeBranch env w = (r, w', tr)"
      by (cases "mergeBranch env w") auto
    define fine where "fine = (\<lambda>tr. \<forall>m choices d res. Ask (ListQ m choices d) res \<in> set tr \<longrightarrow>
        choices = filter (\<lambda>x. x \<noteq> current b) (all_names bl) \<and> current b \<notin> set choices)"
    have "fine tr"
      using run assms unfolding mergeBranch_def Let_def
      apply (auto elim!: io_elims getCurrentBranchE split: if_splits)
      apply (simp_all add: fine_def)
      done
    with that run show ?thesis by (auto simp: fine_def)
  qed
  have none: "mergeBranch env w =
            (Returned (), w2, [Call Branch Ok, Call BranchLocal Ok, Log NoOtherBranchLine])"
    if "filter (\<lambda>x. x \<noteq> current b) (all_names bl) = []"
    using that assms
    by (simp add: mergeBranch_def getCurrentBranch_def io_defs)
  have declined: "mergeBranch env w =
            (Returned (), w4,
             [Call Branch Ok, Call BranchLocal Ok,
              Ask (ListQ (MergeSourceMsg (current b))
                     (filter (\<lambda>x. x \<noteq> current b) (all_names bl)) None) Ok,
              Ask (ConfirmQ (MergeConfirmMsg source (current b)) False) Ok,
              Log MergeCancelledLine])"
    if "filter (\<lambda>x. x \<noteq> current b) (all_names bl) \<noteq> []"
      "prompt_list env
            (ListQ (MergeSourceMsg (current b)) (filter (\<lambda>x. x \<noteq> current b) (all_names bl)) None)
            w2 = (Inr source, w3)"
      "prompt_confirm env (ConfirmQ (MergeConfirmMsg source (current b)) False) w3
            = (Inr False, w4)" for source w3 w4
    using that assms
    by (simp add: mergeBranch_def getCurrentBranch_def io_defs)
  from choices none declined show ?thesis by blast
qed

theorem mergeBranch_choices_witness:
  "git_branch declining_env 0 = (Inr \<lparr>current = ''main'', all_names = [''main'', ''dev'']\<rparr>, 1)
   \<and> git_branchLocal declining_env 1 =
       (Inr \<lparr>current = ''main'', all_names = [''main'', ''dev'']\<rparr>, 2)
   \<and> mergeBranch declining_env 0 =
       (Returned (), 4,
        [Call Branch Ok, Call BranchLocal Ok,
         Ask (ListQ (MergeSourceMsg ''main'') [''dev''] None) Ok,
         Ask (ConfirmQ (MergeConfirmMsg ''dev'' ''main'') False) Ok,
         Log MergeCancelledLine])
   \<and> git_branchLocal single_branch_env 1 =
       (Inr \<lparr>current = ''main'', all_names = [''main'']\<rparr>, 2)
   \<and> mergeBranch single_branch_env 0 =
       (Returned (), 2, [Call Branch Ok, Call BranchLocal Ok, Log NoOtherBranchLine])"
proof -
  have branch: "git_branch declining_env 0 =
      (Inr \<lparr>current = ''main'', all_names = [''main'', ''dev'']\<rparr>, 1)"
    by (simp add: declining_env_def sample_env_def)
  have branches: "git_branchLocal declining_env 1 =
      (Inr \<lparr>current = ''main'', all_names = [''main'', ''dev'']\<rparr>, 2)"
    by (simp add: declining_env_def sample_env_def)
  have answers:
    "prompt_list declining_env (ListQ (MergeSourceMsg ''main'') [''dev''] None) 2 = (Inr ''dev'', 3)"
    "prompt_confirm declining_env (ConfirmQ (MergeConfirmMsg ''dev'' ''main'') False) 3
       = (Inr False, 4)"
    by (simp_all add: declining_env_def sample_env_def)
  have declined: "mergeBranch declining_env 0 =
       (Returned (), 4,
        [Call Branch Ok, Call BranchLocal Ok,
         Ask (ListQ (MergeSourceMsg ''main'') [''dev''] None) Ok,
         Ask (ConfirmQ (MergeConfirmMsg ''dev'' ''main'') False) Ok,
         Log MergeCancelledLine])"
    using mergeBranch_choices [OF branch branches, THEN conjunct2, THEN conjunct2, rule_format,
      of "''dev''" 3 4] answers
    by simp
  have branch1: "git_branch single_branch_env 0 =
      (Inr \<lparr>current = ''main'', all_names = [''main'', ''dev'']\<rparr>, 1)"
    by (simp add: single_branch_env_def sample_env_def)
  have branches1: "git_branchLocal single_branch_env 1 =
      (Inr \<lparr>current = ''main'', all_names = [''main'']\<rparr>, 2)"
    by (simp add: single_branch_env_def sample_env_def)
  have alone: "mergeBranch single_branch_env 0 =
       (Returned (), 2, [Call Branch Ok, Call BranchLocal Ok, Log NoOtherBranchLine])"
    using mergeBranch_choices [OF branch1 branches1, THEN conjunct2, THEN conjunct1]
    by simp
  from branch branches declined branches1 alone show ?thesis
    by blast
qed

subsection \<open>Exit codes\<close>

lemma main_iteration_exit:
  assumes "main_iteration env w = (r, w', tr)"
  shows "tr \<noteq> [] \<and> (r = Returned () \<or> (r = Exited 0 \<and> last tr = Log FarewellLine)
           \<or> (r = Exited 1 \<and> last tr = Log NonInteractiveLine))"
  using assms unfolding main_iteration_def
proof (cases rule: io_catchE)
  case (thr e w1 t1 t2)
  from loop_catch [OF thr(2)] thr(3) show ?thesis
    by auto
next
  case (ret x)
  from loop_try [OF ret(1)] ret(2) show ?thesis
    by auto
next
  case (ext c)
  from loop_try [OF ext(1)] ext(2) show ?thesis
    by auto
qed

lemma main_loop_exit:
  "main_loop n env w = Some (r, w', tr) \<Longrightarrow>
     tr \<noteq> [] \<and> ((r = Exited 0 \<and> last tr = Log FarewellLine)
                \<or> (r = Exited 1 \<and> last tr = Log NonInteractiveLine))"
proof (induction n arbitrary: w r w' tr)
  case 0
  then show ?case by simp
next
  case (Suc n)
  obtain r1 w1 t1 where it: "main_iteration env w = (r1, w1, t1)"
    by (cases "main_iteration env w") auto
  note exit = main_iteration_exit [OF it]
  show ?case
  proof (cases r1)
    case (Returned u)
    with Suc.prems it obtain t2 where rest: "main_loop n env w1 = Some (r, w', t2)"
      and tr: "tr = t1 @ t2"
      by (auto split: option.splits)
    from Suc.IH [OF rest] tr show ?thesis by simp
  next
    case (Threw e)
    with exit show ?thesis by simp
  next
    case (Exited c)
    with Suc.prems it exit show ?thesis by auto
  qed
qed

lemma main_loop_more_fuel:
  "main_loop n env w = Some x \<Longrightarrow> main_loop (n + k) env w = Some x"
proof (induction n arbitrary: w x)
  case 0
  then show ?case by simp
next
  case (Suc n)
  obtain r1 w1 t1 where it: "main_iteration env w = (r1, w1, t1)"
    by (cases "main_iteration env w") auto
  show ?case
  proof (cases r1)
    case (Returned u)
    with Suc.prems it obtain r w2 t2 where rest: "main_loop n env w1 = Some (r, w2, t2)"
      and x: "x = (r, w2, t1 @ t2)"
      by (auto split: option.splits)
    from Suc.IH [OF rest, of ] it Returned x show ?thesis
      by simp
  next
    case (Threw e)
    with Suc.prems it have "x = (Threw e, w1, t1)" by simp
    with it Threw show ?thesis by simp
  next
    case (Exited c)
    with Suc.prems it have "x = (Exited c, w1, t1)" by simp
    with it Exited show ?thesis by simp
  qed
qed

lemma checkIsRepo_cases:
  assumes "checkIsRepo env w = (r, w', tr)"
  shows "(r = Returned () \<and> tr = [Call CheckIsRepo Ok])
       \<or> (r = Exited 1 \<and> tr = [Call CheckIsRepo Ok, Log NotARepoLine])
       \<or> (\<exists>e. r = Threw e \<and> tr = [Call CheckIsRepo (Failed e)])"
  using assms unfolding checkIsRepo_def
  by (auto elim!: io_elims split: if_splits)

lemma turns_loop:
  "turns k env w = Some (wk, tk) \<Longrightarrow> main_iteration env wk = (Exited c, w', t) \<Longrightarrow>
     main_loop (Suc (k + m)) env w = Some (Exited c, w', tk @ t)"
proof (induction k arbitrary: w tk)
  case 0
  then show ?case by simp
next
  case (Suc k)
  from Suc.prems(1) obtain u w1 t1 t2 where it: "main_iteration env w = (Returned u, w1, t1)"
    and rest: "turns k env w1 = Some (wk, t2)" and tk: "tk = t1 @ t2"
    by (auto split: prod.splits outcome.splits option.splits)
  from Suc.IH [OF rest Suc.prems(2)] it tk show ?case
    by simp
qed

lemma loop_turns:
  "main_loop n env w = Some (r, w', tr) \<Longrightarrow>
     \<exists>k<n. \<exists>wk tk t c. turns k env w = Some (wk, tk) \<and>
        main_iteration env wk = (Exited c, w', t) \<and> r = Exited c \<and> tr = tk @ t"
proof (induction n arbitrary: w tr)
  case 0
  then show ?case by simp
next
  case (Suc n)
  obtain r1 w1 t1 where it: "main_iteration env w = (r1, w1, t1)"
    by (cases "main_iteration env w") auto
  show ?case
  proof (cases r1)
    case (Returned u)
    with Suc.prems it obtain t2 where rest: "main_loop n env w1 = Some (r, w', t2)"
      and tr: "tr = t1 @ t2"
      by (auto split: option.splits)
    from Suc.IH [OF rest] obtain k wk tk t c where k: "k < n"
      and more: "turns k env w1 = Some (wk, tk)" "main_iteration env wk = (Exited c, w', t)"
        "r = Exited c" "t2 = tk @ t"
      by blast
    from it Returned more(1) have "turns (Suc k) env w = Some (wk, t1 @ tk)"
      by simp
    with k more tr show ?thesis
      by (intro exI [of _ "Suc k"]) auto
  next
    case (Threw e)
    with main_iteration_exit [OF it] show ?thesis by simp
  next
    case (Exited c)
    with Suc.prems it have "r = Exited c" "w' = w1" "tr = t1" by simp_all
    with it Exited show ?thesis
      by (intro exI [of _ 0]) auto
  qed
qed

lemma turns_running:
  "turns n env w = Some (wn, tn) \<Longrightarrow> main_loop n env w = None"
proof (induction n arbitrary: w tn)
  case 0
  then show ?case by simp
next
  case (Suc n)
  from Suc.prems obtain u w1 t1 t2 where it: "main_iteration env w = (Returned u, w1, t1)"
    and rest: "turns n env w1 = Some (wn, t2)"
    by (auto split: prod.splits outcome.splits option.splits)
  from Suc.IH [OF rest] it show ?case by simp
qed

lemma run_not_a_repo:
  assumes "git_checkIsRepo env w = (Inr False, w1)"
  shows "run n env w = Some (1, w1, [Call CheckIsRepo Ok, Log NotARepoLine])"
  using assms by (simp add: run_def main_def checkIsRepo_def io_defs)

lemma run_check_failed:
  assumes "git_checkIsRepo env w = (Inl e, w1)"
  shows "run n env w = Some (1, w1, [Call CheckIsRepo (Failed e), Log (UnexpectedLine e)])"
  using assms by (simp add: run_def main_def checkIsRepo_def io_defs)

lemma run_repo:
  assumes "git_checkIsRepo env w = (Inr True, w0)"
  shows "run n env w =
     (case main_loop n env w0 of
        None \<Rightarrow> None
      | Some (Returned u, w1, t1) \<Rightarrow> Some (0, w1, Call CheckIsRepo Ok # t1)
      | Some (Threw e, w1, t1) \<Rightarrow> Some (1, w1, Call CheckIsRepo Ok # t1 @ [Log (UnexpectedLine e)])
      | Some (Exited c, w1, t1) \<Rightarrow> Some (c, w1, Call CheckIsRepo Ok # t1))"
  using assms
  by (simp add: run_def main_def checkIsRepo_def io_defs split: option.splits outcome.splits)

text \<open>
  Claim C9, as the code has it. Outside a repository the process ends with code 1
  after the line that says so, and when the repository check itself fails the process
  ends with code 1 after the unexpected error is printed; both happen before the first
  turn of the loop, whatever the number of turns allowed. In a repository the process
  is still running after turns that have all returned, and when the next turn ends the
  process, the run ends with the code of that turn; the process ends in no other way. A
  turn in which the exit action is chosen ends the process with code 0 after the
  farewell, and a turn in which an error with \<^verbatim>\<open>isTtyError\<close> reaches the \<^verbatim>\<open>catch\<close> of
  the loop ends it with code 1 after the line about the non-interactive environment. A
  turn that ends the process does so in one of these two ways: with code 0 for the exit
  action, or with code 1 directly after a failed branch query, menu prompt, listing of
  the remotes, remote menu prompt or pause prompt whose error has \<^verbatim>\<open>isTtyError\<close>. So
  when the process ends, its code is 0 with the farewell
  as the last line, or 1 with the line about the repository, the line about the
  non-interactive environment or the unexpected error as the last line; and more turns
  allowed do not change the result.
\<close>

theorem exit_codes:
  "(\<forall>n c w' tr. run n env w = Some (c, w', tr) \<longrightarrow>
        ((c = 0 \<and> last tr = Log FarewellLine)
         \<or> (c = 1 \<and> (last tr = Log NotARepoLine \<or> last tr = Log NonInteractiveLine
                     \<or> (\<exists>e. tr = [Call CheckIsRepo (Failed e), Log (UnexpectedLine e)]))))
      \<and> ((c = 0) = (last tr = Log FarewellLine))
      \<and> (\<forall>k. run (n + k) env w = Some (c, w', tr)))
   \<and> (\<forall>n w1. git_checkIsRepo env w = (Inr False, w1) \<longrightarrow>
        run n env w = Some (1, w1, [Call CheckIsRepo Ok, Log NotARepoLine]))
   \<and> (\<forall>n e w1. git_checkIsRepo env w = (Inl e, w1) \<longrightarrow>
        run n env w = Some (1, w1, [Call CheckIsRepo (Failed e), Log (UnexpectedLine e)]))
   \<and> (\<forall>k m w0 wk tk c w' t.
        git_checkIsRepo env w = (Inr True, w0) \<and> turns k env w0 = Some (wk, tk) \<and>
        main_iteration env wk = (Exited c, w', t) \<longrightarrow>
        run (Suc (k + m)) env w = Some (c, w', Call CheckIsRepo Ok # tk @ t))
   \<and> (\<forall>n w0 wn tn.
        git_checkIsRepo env w = (Inr True, w0) \<and> turns n env w0 = Some (wn, tn) \<longrightarrow>
        run n env w = None)
   \<and> (\<forall>n c w' tr w0.
        run n env w = Some (c, w', tr) \<and> git_checkIsRepo env w = (Inr True, w0) \<longrightarrow>
        (\<exists>k<n. \<exists>wk tk t. turns k env w0 = Some (wk, tk) \<and>
           main_iteration env wk = (Exited c, w', t) \<and> tr = Call CheckIsRepo Ok # tk @ t))
   \<and> (\<forall>wk w1 t1. showMainMenu env wk = (Returned EXIT, w1, t1) \<longrightarrow>
        main_iteration env wk = (Exited 0, w1, t1 @ [Log FarewellLine]))
   \<and> (\<forall>wk e w1 t1.
        isTtyError e \<and>
        (showMainMenu env wk = (Threw e, w1, t1)
         \<or> (\<exists>a w0 t0 t. showMainMenu env wk = (Returned a, w0, t0) \<and>
               executeAction env a w0 = (Threw e, w1, t) \<and> t1 = t0 @ t)
         \<or> (\<exists>a w0 t0 w2 t. showMainMenu env wk = (Returned a, w0, t0) \<and> a \<noteq> EXIT \<and>
               executeAction env a w0 = (Returned (), w2, t) \<and>
               prompt_input env pause_question w2 = (Inl e, w1) \<and>
               t1 = t0 @ t @ [Ask pause_question (Failed e)])) \<longrightarrow>
        main_iteration env wk = (Exited 1, w1, t1 @ [Log NonInteractiveLine]))
   \<and> (\<forall>wk c w' t. main_iteration env wk = (Exited c, w', t) \<longrightarrow>
        (c = 0 \<and> (\<exists>t1. showMainMenu env wk = (Returned EXIT, w', t1) \<and>
                        t = t1 @ [Log FarewellLine]))
        \<or> (c = 1 \<and> (\<exists>e t1. isTtyError e \<and> t = t1 @ [Log NonInteractiveLine] \<and> t1 \<noteq> [] \<and>
              (last t1 = Call Branch (Failed e) \<or> last t1 = Ask main_menu (Failed e)
               \<or> last t1 = Call GetRemotes (Failed e) \<or> last t1 = Ask remote_menu (Failed e)
               \<or> last t1 = Ask pause_question (Failed e)))))"
proof -
  have ended: "((c = 0 \<and> last tr = Log FarewellLine)
         \<or> (c = 1 \<and> (last tr = Log NotARepoLine \<or> last tr = Log NonInteractiveLine
                     \<or> (\<exists>e. tr = [Call CheckIsRepo (Failed e), Log (UnexpectedLine e)]))))
      \<and> ((c = 0) = (last tr = Log FarewellLine))
      \<and> (\<forall>k. run (n + k) env w = Some (c, w', tr))"
    if "run n env w = Some (c, w', tr)" for n c w' tr
  proof -
    obtain r0 w0 t0 where check: "checkIsRepo env w = (r0, w0, t0)"
      by (cases "checkIsRepo env w") auto
    note cases = checkIsRepo_cases [OF check]
    have "((c = 0 \<and> last tr = Log FarewellLine)
          \<or> (c = 1 \<and> (last tr = Log NotARepoLine \<or> last tr = Log NonInteractiveLine
                      \<or> (\<exists>e. tr = [Call CheckIsRepo (Failed e), Log (UnexpectedLine e)]))))
       \<and> (\<forall>k. run (n + k) env w = Some (c, w', tr))"
    proof (cases r0)
      case (Returned u)
      with that check obtain r t2 where loop: "main_loop n env w0 = Some (r, w', t2)"
        by (auto simp: run_def main_def split: option.splits outcome.splits)
      from main_loop_exit [OF loop] obtain c' where out: "r = Exited c'"
        and last: "(c' = 0 \<and> last t2 = Log FarewellLine) \<or> (c' = 1 \<and> last t2 = Log NonInteractiveLine)"
        and t2: "t2 \<noteq> []"
        by auto
      from that check Returned loop out have c: "c = c'" and tr: "tr = t0 @ t2"
        by (auto simp: run_def main_def)
      from last t2 c tr
      have "(c = 0 \<and> last tr = Log FarewellLine) \<or> (c = 1 \<and> last tr = Log NonInteractiveLine)"
        by auto
      moreover have "run (n + k) env w = Some (c, w', tr)" for k
        using main_loop_more_fuel [OF loop, of k] check Returned tr out c
        by (simp add: run_def main_def)
      ultimately show ?thesis by blast
    next
      case (Threw e)
      with that check cases show ?thesis
        by (auto simp: run_def main_def)
    next
      case (Exited c')
      with that check cases show ?thesis
        by (auto simp: run_def main_def)
    qed
    then show ?thesis by auto
  qed
  have exited: "\<exists>k<n. \<exists>wk tk t. turns k env w0 = Some (wk, tk) \<and>
           main_iteration env wk = (Exited c, w', t) \<and> tr = Call CheckIsRepo Ok # tk @ t"
    if "run n env w = Some (c, w', tr) \<and> git_checkIsRepo env w = (Inr True, w0)"
    for n c w' tr w0
  proof -
    from that run_repo [of env w w0 n]
    obtain r t1 where loop: "main_loop n env w0 = Some (r, w', t1)"
      by (auto split: option.splits outcome.splits)
    from loop_turns [OF loop] obtain k wk tk t c' where k: "k < n"
      and more: "turns k env w0 = Some (wk, tk)" "main_iteration env wk = (Exited c', w', t)"
        "r = Exited c'" "t1 = tk @ t"
      by blast
    from that run_repo [of env w w0 n] loop more(3,4)
    have "c = c'" "tr = Call CheckIsRepo Ok # tk @ t"
      by simp_all
    with k more show ?thesis by blast
  qed
  show ?thesis
  proof (intro conjI)
    show "\<forall>n c w' tr. run n env w = Some (c, w', tr) \<longrightarrow>
        ((c = 0 \<and> last tr = Log FarewellLine)
         \<or> (c = 1 \<and> (last tr = Log NotARepoLine \<or> last tr = Log NonInteractiveLine
                     \<or> (\<exists>e. tr = [Call CheckIsRepo (Failed e), Log (UnexpectedLine e)]))))
      \<and> ((c = 0) = (last tr = Log FarewellLine))
      \<and> (\<forall>k. run (n + k) env w = Some (c, w', tr))"
      by (intro allI impI) (rule ended)
    show "\<forall>n w1. git_checkIsRepo env w = (Inr False, w1) \<longrightarrow>
        run n env w = Some (1, w1, [Call CheckIsRepo Ok, Log NotARepoLine])"
      by (intro allI impI) (rule run_not_a_repo)
    show "\<forall>n e w1. git_checkIsRepo env w = (Inl e, w1) \<longrightarrow>
        run n env w = Some (1, w1, [Call CheckIsRepo (Failed e), Log (UnexpectedLine e)])"
      by (intro allI impI) (rule run_check_failed)
    show "\<forall>k m w0 wk tk c w' t.
        git_checkIsRepo env w = (Inr True, w0) \<and> turns k env w0 = Some (wk, tk) \<and>
        main_iteration env wk = (Exited c, w', t) \<longrightarrow>
        run (Suc (k + m)) env w = Some (c, w', Call CheckIsRepo Ok # tk @ t)"
    proof (intro allI impI)
      fix k m w0 wk tk c w' t
      assume "git_checkIsRepo env w = (Inr True, w0) \<and> turns k env w0 = Some (wk, tk) \<and>
        main_iteration env wk = (Exited c, w', t)"
      then show "run (Suc (k + m)) env w = Some (c, w', Call CheckIsRepo Ok # tk @ t)"
        using turns_loop [of k env w0 wk tk c w' t m] run_repo [of env w w0 "Suc (k + m)"]
        by simp
    qed
    show "\<forall>n w0 wn tn.
        git_checkIsRepo env w = (Inr True, w0) \<and> turns n env w0 = Some (wn, tn) \<longrightarrow>
        run n env w = None"
    proof (intro allI impI)
      fix n w0 wn tn
      assume "git_checkIsRepo env w = (Inr True, w0) \<and> turns n env w0 = Some (wn, tn)"
      then show "run n env w = None"
        using turns_running [of n env w0 wn tn] run_repo [of env w w0 n]
        by simp
    qed
    show "\<forall>n c w' tr w0.
        run n env w = Some (c, w', tr) \<and> git_checkIsRepo env w = (Inr True, w0) \<longrightarrow>
        (\<exists>k<n. \<exists>wk tk t. turns k env w0 = Some (wk, tk) \<and>
           main_iteration env wk = (Exited c, w', t) \<and> tr = Call CheckIsRepo Ok # tk @ t)"
      by (intro allI impI) (rule exited)
    show "\<forall>wk w1 t1. showMainMenu env wk = (Returned EXIT, w1, t1) \<longrightarrow>
        main_iteration env wk = (Exited 0, w1, t1 @ [Log FarewellLine])"
      by (intro allI impI) (rule turn_exit)
    show "\<forall>wk e w1 t1.
        isTtyError e \<and>
        (showMainMenu env wk = (Threw e, w1, t1)
         \<or> (\<exists>a w0 t0 t. showMainMenu env wk = (Returned a, w0, t0) \<and>
               executeAction env a w0 = (Threw e, w1, t) \<and> t1 = t0 @ t)
         \<or> (\<exists>a w0 t0 w2 t. showMainMenu env wk = (Returned a, w0, t0) \<and> a \<noteq> EXIT \<and>
               executeAction env a w0 = (Returned (), w2, t) \<and>
               prompt_input env pause_question w2 = (Inl e, w1) \<and>
               t1 = t0 @ t @ [Ask pause_question (Failed e)])) \<longrightarrow>
        main_iteration env wk = (Exited 1, w1, t1 @ [Log NonInteractiveLine])"
    proof (intro allI impI, elim conjE disjE exE)
      fix wk e w1 t1
      assume "isTtyError e" "showMainMenu env wk = (Threw e, w1, t1)"
      then show "main_iteration env wk = (Exited 1, w1, t1 @ [Log NonInteractiveLine])"
        using turn_menu_threw [of env wk e w1 t1] by simp
    next
      fix wk e w1 t1 a w0 t0 t
      assume "isTtyError e" "showMainMenu env wk = (Returned a, w0, t0)"
        "executeAction env a w0 = (Threw e, w1, t)" "t1 = t0 @ t"
      then show "main_iteration env wk = (Exited 1, w1, t1 @ [Log NonInteractiveLine])"
        using turn_handler_threw [of env wk a w0 t0 e w1 t] by simp
    next
      fix wk e w1 t1 a w0 t0 w2 t
      assume "isTtyError e" "showMainMenu env wk = (Returned a, w0, t0)" "a \<noteq> EXIT"
        "executeAction env a w0 = (Returned (), w2, t)"
        "prompt_input env pause_question w2 = (Inl e, w1)"
        "t1 = t0 @ t @ [Ask pause_question (Failed e)]"
      then show "main_iteration env wk = (Exited 1, w1, t1 @ [Log NonInteractiveLine])"
        using turn_pause_threw [of env wk a w0 t0 w2 t e w1] by simp
    qed
    show "\<forall>wk c w' t. main_iteration env wk = (Exited c, w', t) \<longrightarrow>
        (c = 0 \<and> (\<exists>t1. showMainMenu env wk = (Returned EXIT, w', t1) \<and>
                        t = t1 @ [Log FarewellLine]))
        \<or> (c = 1 \<and> (\<exists>e t1. isTtyError e \<and> t = t1 @ [Log NonInteractiveLine] \<and> t1 \<noteq> [] \<and>
              (last t1 = Call Branch (Failed e) \<or> last t1 = Ask main_menu (Failed e)
               \<or> last t1 = Call GetRemotes (Failed e) \<or> last t1 = Ask remote_menu (Failed e)
               \<or> last t1 = Ask pause_question (Failed e))))"
      by (intro allI impI) (rule main_iteration_exited)
  qed
qed

lemma failing_check_run:
  "run (Suc 0) failing_check_env 0 =
     Some (1, 1, [Call CheckIsRepo (Failed sample_error), Log (UnexpectedLine sample_error)])"
  by (simp add: run_def main_def checkIsRepo_def io_defs failing_check_env_def sample_env_def)

text \<open>
  The repository check fails: the process ends with code 1, in a repository and with
  an error that does not have \<^verbatim>\<open>isTtyError\<close>.
\<close>

theorem exit_codes_counterexample:
  "git_checkIsRepo failing_check_env 0 = (Inl sample_error, 1)
   \<and> \<not> isTtyError sample_error
   \<and> run (Suc 0) failing_check_env 0 =
     Some (1, 1, [Call CheckIsRepo (Failed sample_error), Log (UnexpectedLine sample_error)])"
  by (simp add: failing_check_run)
     (simp add: failing_check_env_def sample_env_def sample_error_def)

lemma sample_run:
  "run (Suc 0) sample_env 0 =
     Some (0, 3,
       [Call CheckIsRepo Ok, Call Branch Ok, Log (MenuBranchLine ''main''), Ask main_menu Ok,
        Log FarewellLine])"
  by (simp add: run_def main_def checkIsRepo_def main_iteration_def showMainMenu_def
      getCurrentBranch_def main_menu_def io_defs sample_env_def)

lemma two_turn_first:
  "main_iteration two_turn_env (Suc 0) =
     (Returned (), 5,
      [Call Branch Ok, Log (MenuBranchLine ''main''), Ask main_menu Ok,
       Log PullingLine, Call Pull Ok, Log PullDoneLine, Log UpToDateLine,
       Ask pause_question Ok, Log BlankLine])"
  by (simp add: main_iteration_def showMainMenu_def waitForContinue_def pullCode_def
      getCurrentBranch_def pause_question_def main_menu_def io_defs
      two_turn_env_def sample_env_def)

lemma two_turn_second:
  "main_iteration two_turn_env 5 =
     (Exited 0, 7,
      [Call Branch Ok, Log (MenuBranchLine ''main''), Ask main_menu Ok, Log FarewellLine])"
  by (simp add: main_iteration_def showMainMenu_def
      getCurrentBranch_def main_menu_def io_defs two_turn_env_def sample_env_def)

theorem exit_codes_witness:
  "run (Suc 0) sample_env 0 =
     Some (0, 3,
       [Call CheckIsRepo Ok, Call Branch Ok, Log (MenuBranchLine ''main''), Ask main_menu Ok,
        Log FarewellLine])
   \<and> run (Suc 0 + 4) sample_env 0 =
     Some (0, 3,
       [Call CheckIsRepo Ok, Call Branch Ok, Log (MenuBranchLine ''main''), Ask main_menu Ok,
        Log FarewellLine])
   \<and> git_checkIsRepo not_a_repo_env 0 = (Inr False, 1)
   \<and> run 5 not_a_repo_env 0 = Some (1, 1, [Call CheckIsRepo Ok, Log NotARepoLine])
   \<and> git_checkIsRepo failing_check_env 0 = (Inl sample_error, 1)
   \<and> run 0 failing_check_env 0 =
       Some (1, 1, [Call CheckIsRepo (Failed sample_error), Log (UnexpectedLine sample_error)])
   \<and> git_checkIsRepo two_turn_env 0 = (Inr True, 1)
   \<and> turns 1 two_turn_env 1 =
       Some (5, [Call Branch Ok, Log (MenuBranchLine ''main''), Ask main_menu Ok,
                 Log PullingLine, Call Pull Ok, Log PullDoneLine, Log UpToDateLine,
                 Ask pause_question Ok, Log BlankLine])
   \<and> run 1 two_turn_env 0 = None
   \<and> run 2 two_turn_env 0 =
       Some (0, 7,
         [Call CheckIsRepo Ok,
          Call Branch Ok, Log (MenuBranchLine ''main''), Ask main_menu Ok,
          Log PullingLine, Call Pull Ok, Log PullDoneLine, Log UpToDateLine,
          Ask pause_question Ok, Log BlankLine,
          Call Branch Ok, Log (MenuBranchLine ''main''), Ask main_menu Ok, Log FarewellLine])
   \<and> isTtyError tty_error
   \<and> showMainMenu tty_menu_env 1 =
       (Threw tty_error, 3,
        [Call Branch Ok, Log (MenuBranchLine ''main''), Ask main_menu (Failed tty_error)])
   \<and> run 1 tty_menu_env 0 =
       Some (1, 3,
         [Call CheckIsRepo Ok, Call Branch Ok, Log (MenuBranchLine ''main''),
          Ask main_menu (Failed tty_error), Log NonInteractiveLine])"
proof -
  from exit_codes [of sample_env 0, THEN conjunct1, rule_format, OF sample_run]
  have more: "run (Suc 0 + 4) sample_env 0 =
     Some (0, 3,
       [Call CheckIsRepo Ok, Call Branch Ok, Log (MenuBranchLine ''main''), Ask main_menu Ok,
        Log FarewellLine])"
    by blast
  have outside: "git_checkIsRepo not_a_repo_env 0 = (Inr False, 1)"
    by (simp add: not_a_repo_env_def sample_env_def)
  from exit_codes [of not_a_repo_env 0, THEN conjunct2, THEN conjunct1, rule_format, OF outside]
  have not_a_repo: "run 5 not_a_repo_env 0 = Some (1, 1, [Call CheckIsRepo Ok, Log NotARepoLine])" .
  have check: "git_checkIsRepo failing_check_env 0 = (Inl sample_error, 1)"
    by (simp add: failing_check_env_def sample_env_def)
  from exit_codes [of failing_check_env 0, THEN conjunct2, THEN conjunct2, THEN conjunct1,
      rule_format, OF check]
  have failed: "run 0 failing_check_env 0 =
       Some (1, 1, [Call CheckIsRepo (Failed sample_error), Log (UnexpectedLine sample_error)])" .
  have repo: "git_checkIsRepo two_turn_env 0 = (Inr True, 1)"
    by (simp add: two_turn_env_def sample_env_def)
  have first: "turns 1 two_turn_env 1 =
       Some (5, [Call Branch Ok, Log (MenuBranchLine ''main''), Ask main_menu Ok,
                 Log PullingLine, Call Pull Ok, Log PullDoneLine, Log UpToDateLine,
                 Ask pause_question Ok, Log BlankLine])"
    by (simp add: two_turn_first)
  from exit_codes [of two_turn_env 0, THEN conjunct2, THEN conjunct2, THEN conjunct2, THEN conjunct1,
      rule_format, of 1 1 5 _ 0 7 _ 0] repo first two_turn_second
  have ended: "run 2 two_turn_env 0 =
       Some (0, 7,
         [Call CheckIsRepo Ok,
          Call Branch Ok, Log (MenuBranchLine ''main''), Ask main_menu Ok,
          Log PullingLine, Call Pull Ok, Log PullDoneLine, Log UpToDateLine,
          Ask pause_question Ok, Log BlankLine,
          Call Branch Ok, Log (MenuBranchLine ''main''), Ask main_menu Ok, Log FarewellLine])"
    by (simp add: numeral_2_eq_2)
  from exit_codes [of two_turn_env 0, THEN conjunct2, THEN conjunct2, THEN conjunct2, THEN conjunct2,
      THEN conjunct1, rule_format, of 1 1 5] repo first
  have running: "run 1 two_turn_env 0 = None"
    by simp
  have tty: "isTtyError tty_error"
    by (simp add: tty_error_def)
  have menu: "showMainMenu tty_menu_env 1 =
       (Threw tty_error, 3,
        [Call Branch Ok, Log (MenuBranchLine ''main''), Ask main_menu (Failed tty_error)])"
    by (simp add: showMainMenu_def getCurrentBranch_def main_menu_def io_defs tty_menu_env_def
        sample_env_def)
  from exit_codes [of tty_menu_env 0, THEN conjunct2, THEN conjunct2, THEN conjunct2,
      THEN conjunct2, THEN conjunct2, THEN conjunct2, THEN conjunct2, THEN conjunct1,
      rule_format, of tty_error 1 3
        "[Call Branch Ok, Log (MenuBranchLine ''main''), Ask main_menu (Failed tty_error)]"]
    tty menu
  have turn: "main_iteration tty_menu_env 1 =
       (Exited 1, 3,
        [Call Branch Ok, Log (MenuBranchLine ''main''), Ask main_menu (Failed tty_error)] @
        [Log NonInteractiveLine])"
    by blast
  have repo': "git_checkIsRepo tty_menu_env 0 = (Inr True, 1)"
    by (simp add: tty_menu_env_def sample_env_def)
  have none: "turns 0 tty_menu_env 1 = Some (1, [])"
    by simp
  from exit_codes [of tty_menu_env 0, THEN conjunct2, THEN conjunct2, THEN conjunct2,
      THEN conjunct1, rule_format, of 1 0 1 "[]" 1 3 _ 0] repo' none turn
  have fatal: "run 1 tty_menu_env 0 =
       Some (1, 3,
         [Call CheckIsRepo Ok, Call Branch Ok, Log (MenuBranchLine ''main''),
          Ask main_menu (Failed tty_error), Log NonInteractiveLine])"
    by simp
  from sample_run more outside not_a_repo check failed repo first running ended tty menu fatal
  show ?thesis
    by blast
qed

subsection \<open>Commit and sync without a remote\<close>

lemma commitAndPush_no_remote:
  assumes "git_branch env w = (Inr b, w1)"
    and "git_status env w1 = (Inr st, w2)"
    and "modified st \<noteq> [] \<or> not_added st \<noteq> []"
    and "prompt_input env (InputQ CommitMessageMsg None True) w2 = (Inr msg, w3)"
    and "git_add env ''.'' w3 = (Inr (), w4)"
    and "git_commit env (trim msg) w4 = (Inr (), w5)"
    and "git_pull env w5 = (Inr s, w6)"
    and "git_getRemotes env w6 = (Inr [], w7)"
  shows "commitAndPush env w =
           (Returned (), w7,
            [Call Branch Ok, Call Status Ok, Ask (InputQ CommitMessageMsg None True) Ok,
             Log AddingLine, Call (Add ''.'') Ok, Log CommittingLine,
             Call (Commit (trim msg)) Ok, Log CommitOkLine,
             Log SyncPullingLine, Call Pull Ok, Log SyncPulledLine] @
            (if changes s \<noteq> 0 \<or> insertions s \<noteq> 0 \<or> deletions s \<noteq> 0
             then [Log (SyncMergedLine s)] else []) @
            [Call GetRemotes Ok] @ error_events no_remote_error OpPush)"
  using assms
  by (auto simp add: commitAndPush_def commitAndPush_pull_def commitAndPush_push_def
      getDefaultRemote_def getRemotes_def getCurrentBranch_def handleError_eq io_defs)

lemma ErrorLine_in_error_events_iff:
  "(Log (ErrorLine operation m) \<in> set (error_events e operation')) =
     (operation = operation' \<and> m = message e)"
  by (auto simp: error_events.simps split: option.splits)

lemma commitAndPush_failing_pull:
  assumes "git_branch env w = (Inr b, w1)"
    and "git_status env w1 = (Inr st, w2)"
    and "modified st \<noteq> [] \<or> not_added st \<noteq> []"
    and "prompt_input env (InputQ CommitMessageMsg None True) w2 = (Inr msg, w3)"
    and "git_add env ''.'' w3 = (Inr (), w4)"
    and "git_commit env (trim msg) w4 = (Inr (), w5)"
    and "git_pull env w5 = (Inl e, w6)"
  shows "commitAndPush env w =
           (Returned (), w6,
            [Call Branch Ok, Call Status Ok, Ask (InputQ CommitMessageMsg None True) Ok,
             Log AddingLine, Call (Add ''.'') Ok, Log CommittingLine,
             Call (Commit (trim msg)) Ok, Log CommitOkLine,
             Log SyncPullingLine, Call Pull (Failed e)] @
            error_events e OpPull @ [Log PullFailedSkipPushLine])"
  using assms
  by (auto simp add: commitAndPush_def commitAndPush_pull_def
      getCurrentBranch_def handleError_eq io_defs)

lemma commitAndPush_listing:
  assumes run: "commitAndPush env w = (r, w', tr)"
  shows "(\<forall>res. Call GetRemotes res \<in> set tr \<longrightarrow>
            Call (Add ''.'') Ok \<in> set tr \<and> (\<exists>m. Call (Commit m) Ok \<in> set tr)
            \<and> Call Pull Ok \<in> set tr)
       \<and> (\<forall>m. Log (ErrorLine OpPush m) \<in> set tr \<longrightarrow> Call Pull Ok \<in> set tr)"
proof -
  define fine where "fine = (\<lambda>tr. (\<forall>res. Call GetRemotes res \<in> set tr \<longrightarrow>
            Call (Add ''.'') Ok \<in> set tr \<and> (\<exists>m. Call (Commit m) Ok \<in> set tr)
            \<and> Call Pull Ok \<in> set tr)
       \<and> (\<forall>m. Log (ErrorLine OpPush m) \<in> set tr \<longrightarrow> Call Pull Ok \<in> set tr))"
  have "fine tr"
    using run
    unfolding commitAndPush_def
    apply (auto elim!: io_elims getCurrentBranchE commitAndPush_pullE
        split: if_splits)
    apply (auto simp add: fine_def ErrorLine_in_error_events_iff)
    done
  then show ?thesis by (simp add: fine_def)
qed

text \<open>
  Claim C10, as the code has it. \<^verbatim>\<open>getDefaultRemote\<close> throws exactly when the
  listing of the remotes fails or gives the empty list: the error of the listing in the
  first case, its own error in the second. In a commit-and-sync run with changes and no
  remote, once the message prompt, the add, the commit and the pull have succeeded, the
  remotes are listed and the error is reported under the push operation, without a push
  call. When the pull fails instead, the handler stops after the notice that the push
  is skipped: the remotes are not listed and nothing is reported under the push
  operation. In every run the remotes are listed, and an error is reported under the
  push operation, only after the pull has succeeded, and the remotes are listed only
  after the add and the commit have succeeded too.
\<close>

theorem commitAndPush_without_remote:
  "((\<exists>e. fst (getDefaultRemote env w) = Threw e) =
      ((\<exists>e. fst (git_getRemotes env w) = Inl e) \<or> fst (git_getRemotes env w) = Inr []))
   \<and> (\<forall>rs w1. git_getRemotes env w = (Inr rs, w1) \<longrightarrow>
        ((\<exists>e. fst (getDefaultRemote env w) = Threw e) = (rs = [])))
   \<and> (\<forall>e w1. git_getRemotes env w = (Inl e, w1) \<longrightarrow>
        getDefaultRemote env w = (Threw e, w1, [Call GetRemotes (Failed e)]))
   \<and> (\<forall>w1. git_getRemotes env w = (Inr [], w1) \<longrightarrow>
        getDefaultRemote env w = (Threw no_remote_error, w1, [Call GetRemotes Ok]))
   \<and> (\<forall>b w1 st w2 msg w3 w4 w5 s w6 w7.
        git_branch env w = (Inr b, w1) \<and>
        git_status env w1 = (Inr st, w2) \<and>
        (modified st \<noteq> [] \<or> not_added st \<noteq> []) \<and>
        prompt_input env (InputQ CommitMessageMsg None True) w2 = (Inr msg, w3) \<and>
        git_add env ''.'' w3 = (Inr (), w4) \<and>
        git_commit env (trim msg) w4 = (Inr (), w5) \<and>
        git_pull env w5 = (Inr s, w6) \<and>
        git_getRemotes env w6 = (Inr [], w7) \<longrightarrow>
        commitAndPush env w =
           (Returned (), w7,
            [Call Branch Ok, Call Status Ok, Ask (InputQ CommitMessageMsg None True) Ok,
             Log AddingLine, Call (Add ''.'') Ok, Log CommittingLine,
             Call (Commit (trim msg)) Ok, Log CommitOkLine,
             Log SyncPullingLine, Call Pull Ok, Log SyncPulledLine] @
            (if changes s \<noteq> 0 \<or> insertions s \<noteq> 0 \<or> deletions s \<noteq> 0
             then [Log (SyncMergedLine s)] else []) @
            [Call GetRemotes Ok] @ error_events no_remote_error OpPush))
   \<and> (\<forall>b w1 st w2 msg w3 w4 w5 e w6.
        git_branch env w = (Inr b, w1) \<and>
        git_status env w1 = (Inr st, w2) \<and>
        (modified st \<noteq> [] \<or> not_added st \<noteq> []) \<and>
        prompt_input env (InputQ CommitMessageMsg None True) w2 = (Inr msg, w3) \<and>
        git_add env ''.'' w3 = (Inr (), w4) \<and>
        git_commit env (trim msg) w4 = (Inr (), w5) \<and>
        git_pull env w5 = (Inl e, w6) \<longrightarrow>
        commitAndPush env w =
           (Returned (), w6,
            [Call Branch Ok, Call Status Ok, Ask (InputQ CommitMessageMsg None True) Ok,
             Log AddingLine, Call (Add ''.'') Ok, Log CommittingLine,
             Call (Commit (trim msg)) Ok, Log CommitOkLine,
             Log SyncPullingLine, Call Pull (Failed e)] @
            error_events e OpPull @ [Log PullFailedSkipPushLine]))
   \<and> (\<forall>r w' tr. commitAndPush env w = (r, w', tr) \<longrightarrow>
        (\<forall>res. Call GetRemotes res \<in> set tr \<longrightarrow>
            Call (Add ''.'') Ok \<in> set tr \<and> (\<exists>m. Call (Commit m) Ok \<in> set tr)
            \<and> Call Pull Ok \<in> set tr)
        \<and> (\<forall>m. Log (ErrorLine OpPush m) \<in> set tr \<longrightarrow> Call Pull Ok \<in> set tr))"
proof -
  obtain x w1 where listing: "git_getRemotes env w = (x, w1)"
    by (cases "git_getRemotes env w") auto
  have failed: "getDefaultRemote env w = (Threw e, w1, [Call GetRemotes (Failed e)])"
    if "git_getRemotes env w = (Inl e, w1)" for e w1
    using that by (simp add: getDefaultRemote_def getRemotes_def io_defs)
  have none: "getDefaultRemote env w = (Threw no_remote_error, w1, [Call GetRemotes Ok])"
    if "git_getRemotes env w = (Inr [], w1)" for w1
    using that by (simp add: getDefaultRemote_def getRemotes_def io_defs)
  have raises: "(\<exists>e. fst (getDefaultRemote env w) = Threw e) = (rs = [])"
    if "git_getRemotes env w = (Inr rs, w1)" for rs w1
    using that
    by (cases rs)
       (simp_all add: getDefaultRemote_def getRemotes_def io_defs split: option.splits)
  show ?thesis
  proof (intro conjI)
    show "(\<exists>e. fst (getDefaultRemote env w) = Threw e) =
      ((\<exists>e. fst (git_getRemotes env w) = Inl e) \<or> fst (git_getRemotes env w) = Inr [])"
    proof (cases x)
      case (Inl e)
      with listing failed [of e w1] show ?thesis by simp
    next
      case (Inr rs)
      with listing raises [of rs w1] show ?thesis by simp
    qed
    show "\<forall>rs w1. git_getRemotes env w = (Inr rs, w1) \<longrightarrow>
        ((\<exists>e. fst (getDefaultRemote env w) = Threw e) = (rs = []))"
      by (intro allI impI) (rule raises)
    show "\<forall>e w1. git_getRemotes env w = (Inl e, w1) \<longrightarrow>
        getDefaultRemote env w = (Threw e, w1, [Call GetRemotes (Failed e)])"
      by (intro allI impI) (rule failed)
    show "\<forall>w1. git_getRemotes env w = (Inr [], w1) \<longrightarrow>
        getDefaultRemote env w = (Threw no_remote_error, w1, [Call GetRemotes Ok])"
      by (intro allI impI) (rule none)
    show "\<forall>b w1 st w2 msg w3 w4 w5 s w6 w7.
        git_branch env w = (Inr b, w1) \<and>
        git_status env w1 = (Inr st, w2) \<and>
        (modified st \<noteq> [] \<or> not_added st \<noteq> []) \<and>
        prompt_input env (InputQ CommitMessageMsg None True) w2 = (Inr msg, w3) \<and>
        git_add env ''.'' w3 = (Inr (), w4) \<and>
        git_commit env (trim msg) w4 = (Inr (), w5) \<and>
        git_pull env w5 = (Inr s, w6) \<and>
        git_getRemotes env w6 = (Inr [], w7) \<longrightarrow>
        commitAndPush env w =
           (Returned (), w7,
            [Call Branch Ok, Call Status Ok, Ask (InputQ CommitMessageMsg None True) Ok,
             Log AddingLine, Call (Add ''.'') Ok, Log CommittingLine,
             Call (Commit (trim msg)) Ok, Log CommitOkLine,
             Log SyncPullingLine, Call Pull Ok, Log SyncPulledLine] @
            (if changes s \<noteq> 0 \<or> insertions s \<noteq> 0 \<or> deletions s \<noteq> 0
             then [Log (SyncMergedLine s)] else []) @
            [Call GetRemotes Ok] @ error_events no_remote_error OpPush)"
    proof (intro allI impI)
      fix b w1 st w2 msg w3 w4 w5 s w6 w7
      assume "git_branch env w = (Inr b, w1) \<and>
        git_status env w1 = (Inr st, w2) \<and>
        (modified st \<noteq> [] \<or> not_added st \<noteq> []) \<and>
        prompt_input env (InputQ CommitMessageMsg None True) w2 = (Inr msg, w3) \<and>
        git_add env ''.'' w3 = (Inr (), w4) \<and>
        git_commit env (trim msg) w4 = (Inr (), w5) \<and>
        git_pull env w5 = (Inr s, w6) \<and>
        git_getRemotes env w6 = (Inr [], w7)"
      then show "commitAndPush env w =
           (Returned (), w7,
            [Call Branch Ok, Call Status Ok, Ask (InputQ CommitMessageMsg None True) Ok,
             Log AddingLine, Call (Add ''.'') Ok, Log CommittingLine,
             Call (Commit (trim msg)) Ok, Log CommitOkLine,
             Log SyncPullingLine, Call Pull Ok, Log SyncPulledLine] @
            (if changes s \<noteq> 0 \<or> insertions s \<noteq> 0 \<or> deletions s \<noteq> 0
             then [Log (SyncMergedLine s)] else []) @
            [Call GetRemotes Ok] @ error_events no_remote_error OpPush)"
        using commitAndPush_no_remote [of env w b w1 st w2 msg w3 w4 w5 s w6 w7]
        by simp
    qed
    show "\<forall>b w1 st w2 msg w3 w4 w5 e w6.
        git_branch env w = (Inr b, w1) \<and>
        git_status env w1 = (Inr st, w2) \<and>
        (modified st \<noteq> [] \<or> not_added st \<noteq> []) \<and>
        prompt_input env (InputQ CommitMessageMsg None True) w2 = (Inr msg, w3) \<and>
        git_add env ''.'' w3 = (Inr (), w4) \<and>
        git_commit env (trim msg) w4 = (Inr (), w5) \<and>
        git_pull env w5 = (Inl e, w6) \<longrightarrow>
        commitAndPush env w =
           (Returned (), w6,
            [Call Branch Ok, Call Status Ok, Ask (InputQ CommitMessageMsg None True) Ok,
             Log AddingLine, Call (Add ''.'') Ok, Log CommittingLine,
             Call (Commit (trim msg)) Ok, Log CommitOkLine,
             Log SyncPullingLine, Call Pull (Failed e)] @
            error_events e OpPull @ [Log PullFailedSkipPushLine])"
    proof (intro allI impI)
      fix b w1 st w2 msg w3 w4 w5 e w6
      assume "git_branch env w = (Inr b, w1) \<and>
        git_status env w1 = (Inr st, w2) \<and>
        (modified st \<noteq> [] \<or> not_added st \<noteq> []) \<and>
        prompt_input env (InputQ CommitMessageMsg None True) w2 = (Inr msg, w3) \<and>
        git_add env ''.'' w3 = (Inr (), w4) \<and>
        git_commit env (trim msg) w4 = (Inr (), w5) \<and>
        git_pull env w5 = (Inl e, w6)"
      then show "commitAndPush env w =
           (Returned (), w6,
            [Call Branch Ok, Call Status Ok, Ask (InputQ CommitMessageMsg None True) Ok,
             Log AddingLine, Call (Add ''.'') Ok, Log CommittingLine,
             Call (Commit (trim msg)) Ok, Log CommitOkLine,
             Log SyncPullingLine, Call Pull (Failed e)] @
            error_events e OpPull @ [Log PullFailedSkipPushLine])"
        using commitAndPush_failing_pull [of env w b w1 st w2 msg w3 w4 w5 e w6]
        by simp
    qed
    show "\<forall>r w' tr. commitAndPush env w = (r, w', tr) \<longrightarrow>
        (\<forall>res. Call GetRemotes res \<in> set tr \<longrightarrow>
            Call (Add ''.'') Ok \<in> set tr \<and> (\<exists>m. Call (Commit m) Ok \<in> set tr)
            \<and> Call Pull Ok \<in> set tr)
        \<and> (\<forall>m. Log (ErrorLine OpPush m) \<in> set tr \<longrightarrow> Call Pull Ok \<in> set tr)"
      by (intro allI impI) (rule commitAndPush_listing)
  qed
qed

lemma no_remote_failing_pull_run:
  "commitAndPush no_remote_failing_pull_env 0 =
     (Returned (), 6,
      [Call Branch Ok, Call Status Ok, Ask (InputQ CommitMessageMsg None True) Ok,
       Log AddingLine, Call (Add ''.'') Ok, Log CommittingLine, Call (Commit ''fix'') Ok,
       Log CommitOkLine, Log SyncPullingLine, Call Pull (Failed sample_error),
       Log (ErrorLine OpPull ''rejected''), Log (DetailLine ''fatal: no access''),
       Log PullFailedSkipPushLine])"
  by (simp add: commitAndPush_def commitAndPush_pull_def getCurrentBranch_def handleError_def
      trim_def white_space_def io_defs no_remote_failing_pull_env_def sample_env_def
      sample_error_def)

text \<open>
  No remote is configured and the pull fails: the run ends with the notice that the
  push is skipped, with no listing of the remotes and no report under the push
  operation. And a listing that fails makes \<^verbatim>\<open>getDefaultRemote\<close> throw, whatever the
  remotes are.
\<close>

theorem commitAndPush_without_remote_counterexample:
  "git_getRemotes no_remote_failing_pull_env 6 = (Inr [], 7)
   \<and> commitAndPush no_remote_failing_pull_env 0 =
     (Returned (), 6,
      [Call Branch Ok, Call Status Ok, Ask (InputQ CommitMessageMsg None True) Ok,
       Log AddingLine, Call (Add ''.'') Ok, Log CommittingLine, Call (Commit ''fix'') Ok,
       Log CommitOkLine, Log SyncPullingLine, Call Pull (Failed sample_error),
       Log (ErrorLine OpPull ''rejected''), Log (DetailLine ''fatal: no access''),
       Log PullFailedSkipPushLine])
   \<and> git_getRemotes failing_remotes_env 0 = (Inl sample_error, 1)
   \<and> getDefaultRemote failing_remotes_env 0 =
       (Threw sample_error, 1, [Call GetRemotes (Failed sample_error)])"
  by (simp add: no_remote_failing_pull_run)
     (simp add: getDefaultRemote_def getRemotes_def io_defs no_remote_failing_pull_env_def
        failing_remotes_env_def sample_env_def)

theorem commitAndPush_without_remote_witness:
  "git_getRemotes no_remote_env 0 = (Inr [], 1)
   \<and> getDefaultRemote no_remote_env 0 = (Threw no_remote_error, 1, [Call GetRemotes Ok])
   \<and> git_getRemotes failing_remotes_env 0 = (Inl sample_error, 1)
   \<and> getDefaultRemote failing_remotes_env 0 =
       (Threw sample_error, 1, [Call GetRemotes (Failed sample_error)])
   \<and> commitAndPush no_remote_env 0 =
       (Returned (), 7,
        [Call Branch Ok, Call Status Ok, Ask (InputQ CommitMessageMsg None True) Ok,
         Log AddingLine, Call (Add ''.'') Ok, Log CommittingLine, Call (Commit ''fix'') Ok,
         Log CommitOkLine, Log SyncPullingLine, Call Pull Ok, Log SyncPulledLine,
         Call GetRemotes Ok, Log (ErrorLine OpPush (message no_remote_error))])
   \<and> git_pull no_remote_failing_pull_env 5 = (Inl sample_error, 6)
   \<and> commitAndPush no_remote_failing_pull_env 0 =
       (Returned (), 6,
        [Call Branch Ok, Call Status Ok, Ask (InputQ CommitMessageMsg None True) Ok,
         Log AddingLine, Call (Add ''.'') Ok, Log CommittingLine, Call (Commit ''fix'') Ok,
         Log CommitOkLine, Log SyncPullingLine, Call Pull (Failed sample_error)] @
        error_events sample_error OpPull @ [Log PullFailedSkipPushLine])"
proof -
  have remotes: "git_getRemotes no_remote_env 0 = (Inr [], 1)"
    by (simp add: no_remote_env_def sample_env_def)
  from commitAndPush_without_remote [of no_remote_env 0, THEN conjunct2, THEN conjunct2, THEN conjunct2, THEN conjunct1,
      rule_format, OF remotes]
  have thrown: "getDefaultRemote no_remote_env 0 =
      (Threw no_remote_error, 1, [Call GetRemotes Ok])" .
  have listing: "git_getRemotes failing_remotes_env 0 = (Inl sample_error, 1)"
    by (simp add: failing_remotes_env_def sample_env_def)
  from commitAndPush_without_remote [of failing_remotes_env 0, THEN conjunct2, THEN conjunct2, THEN conjunct1,
      rule_format, OF listing]
  have failed: "getDefaultRemote failing_remotes_env 0 =
      (Threw sample_error, 1, [Call GetRemotes (Failed sample_error)])" .
  have scenario:
    "git_branch no_remote_env 0 = (Inr \<lparr>current = ''main'', all_names = [''main'', ''dev'']\<rparr>, 1) \<and>
     git_status no_remote_env 1 =
       (Inr \<lparr>status_current = ''main'', tracking = None, ahead = 0, behind = 0,
             modified = [''a.txt''], not_added = [], staged = []\<rparr>, 2) \<and>
     (modified \<lparr>status_current = ''main'', tracking = None, ahead = 0, behind = 0,
                modified = [''a.txt''], not_added = [], staged = []\<rparr> \<noteq> [] \<or>
      not_added \<lparr>status_current = ''main'', tracking = None, ahead = 0, behind = 0,
                 modified = [''a.txt''], not_added = [], staged = []\<rparr> \<noteq> []) \<and>
     prompt_input no_remote_env (InputQ CommitMessageMsg None True) 2 = (Inr ''fix'', 3) \<and>
     git_add no_remote_env ''.'' 3 = (Inr (), 4) \<and>
     git_commit no_remote_env (trim ''fix'') 4 = (Inr (), 5) \<and>
     git_pull no_remote_env 5 = (Inr \<lparr>changes = 0, insertions = 0, deletions = 0\<rparr>, 6) \<and>
     git_getRemotes no_remote_env 6 = (Inr [], 7)"
    by (simp add: no_remote_env_def sample_env_def)
  from commitAndPush_without_remote [of no_remote_env 0, THEN conjunct2, THEN conjunct2, THEN conjunct2, THEN conjunct2,
      THEN conjunct1, rule_format, OF scenario]
  have run: "commitAndPush no_remote_env 0 =
       (Returned (), 7,
        [Call Branch Ok, Call Status Ok, Ask (InputQ CommitMessageMsg None True) Ok,
         Log AddingLine, Call (Add ''.'') Ok, Log CommittingLine, Call (Commit ''fix'') Ok,
         Log CommitOkLine, Log SyncPullingLine, Call Pull Ok, Log SyncPulledLine,
         Call GetRemotes Ok, Log (ErrorLine OpPush (message no_remote_error))])"
    by (simp add: trim_def white_space_def error_events.simps no_remote_error_def)
  have pull: "git_pull no_remote_failing_pull_env 5 = (Inl sample_error, 6)"
    by (simp add: no_remote_failing_pull_env_def sample_env_def)
  have scenario':
    "git_branch no_remote_failing_pull_env 0 =
       (Inr \<lparr>current = ''main'', all_names = [''main'', ''dev'']\<rparr>, 1) \<and>
     git_status no_remote_failing_pull_env 1 =
       (Inr \<lparr>status_current = ''main'', tracking = None, ahead = 0, behind = 0,
             modified = [''a.txt''], not_added = [], staged = []\<rparr>, 2) \<and>
     (modified \<lparr>status_current = ''main'', tracking = None, ahead = 0, behind = 0,
                modified = [''a.txt''], not_added = [], staged = []\<rparr> \<noteq> [] \<or>
      not_added \<lparr>status_current = ''main'', tracking = None, ahead = 0, behind = 0,
                 modified = [''a.txt''], not_added = [], staged = []\<rparr> \<noteq> []) \<and>
     prompt_input no_remote_failing_pull_env (InputQ CommitMessageMsg None True) 2
       = (Inr ''fix'', 3) \<and>
     git_add no_remote_failing_pull_env ''.'' 3 = (Inr (), 4) \<and>
     git_commit no_remote_failing_pull_env (trim ''fix'') 4 = (Inr (), 5) \<and>
     git_pull no_remote_failing_pull_env 5 = (Inl sample_error, 6)"
    by (simp add: no_remote_failing_pull_env_def sample_env_def)
  from commitAndPush_without_remote [of no_remote_failing_pull_env 0, THEN conjunct2, THEN conjunct2, THEN conjunct2,
      THEN conjunct2, THEN conjunct2, THEN conjunct1, rule_format, OF scenario']
  have skipped: "commitAndPush no_remote_failing_pull_env 0 =
       (Returned (), 6,
        [Call Branch Ok, Call Status Ok, Ask (InputQ CommitMessageMsg None True) Ok,
         Log AddingLine, Call (Add ''.'') Ok, Log CommittingLine, Call (Commit ''fix'') Ok,
         Log CommitOkLine, Log SyncPullingLine, Call Pull (Failed sample_error)] @
        error_events sample_error OpPull @ [Log PullFailedSkipPushLine])"
    by (simp add: trim_def white_space_def)
  from remotes thrown listing failed run pull skipped show ?thesis
    by blast
qed

end
